theory Spec2Isabelle
  imports Main "HOL-Library.Multiset"
begin

section \<open>JavaScript values and operators used by the stores\<close>

text \<open>
  Numeric fields of a chat row (\<open>unread\<close>, \<open>isTop\<close>, \<open>isMute\<close>, \<open>messageTime\<close>,
  \<open>sequence\<close>) may be missing on an object that came from storage or from the server, and
  the stores guard them with \<open>x || 0\<close> or \<open>x || now\<close>. They are \<open>int option\<close>, \<open>None\<close>
  for \<open>undefined\<close>. \<open>num_or x d\<close> is the JavaScript \<open>x || d\<close> on such a field: \<open>undefined\<close>
  and \<open>0\<close> are falsy.
\<close>

definition num_or :: "int option \<Rightarrow> int \<Rightarrow> int" where
  "num_or x d = (case x of None \<Rightarrow> d | Some n \<Rightarrow> if n = 0 then d else n)"

text \<open>\<open>a || b\<close> on two numbers.\<close>

definition int_or :: "int \<Rightarrow> int \<Rightarrow> int" where
  "int_or a b = (if a \<noteq> 0 then a else b)"

text \<open>
  \<open>Array.prototype.sort(cmp)\<close>: the language standard requires a stable sort; the element
  \<open>x\<close> stays before \<open>y\<close> when \<open>cmp x y \<le> 0\<close>. Stable insertion from the right has this
  behaviour for the comparators of this program.
\<close>

fun insert_by :: "('a \<Rightarrow> 'a \<Rightarrow> int) \<Rightarrow> 'a \<Rightarrow> 'a list \<Rightarrow> 'a list" where
  "insert_by cmp x [] = [x]"
| "insert_by cmp x (y # ys) = (if cmp x y \<le> 0 then x # y # ys else y # insert_by cmp x ys)"

definition array_sort :: "('a \<Rightarrow> 'a \<Rightarrow> int) \<Rightarrow> 'a list \<Rightarrow> 'a list" where
  "array_sort cmp xs = foldr (insert_by cmp) xs []"

text \<open>\<open>Array.prototype.findIndex\<close>, \<open>None\<close> for \<open>-1\<close>.\<close>

fun findIndex :: "('a \<Rightarrow> bool) \<Rightarrow> 'a list \<Rightarrow> nat option" where
  "findIndex p [] = None"
| "findIndex p (x # xs) = (if p x then Some 0 else map_option Suc (findIndex p xs))"

section \<open>The chat list (store/modules/chat.ts)\<close>

text \<open>The fields of a \<open>Chats\<close> row that the chat store reads and writes.\<close>

record Chats =
  chatId :: string
  toId :: string
  chatType :: int
  name :: string
  message :: string
  messageTime :: "int option"
  sequence :: "int option"
  unread :: "int option"
  isTop :: "int option"
  isMute :: "int option"

text \<open>
  \<open>getters.totalUnread\<close>:
  \<^verbatim>\<open>state.chatList.reduce((s, c) => c.isMute === 0 ? s + (c.unread || 0) : s, 0)\<close>
\<close>

definition totalUnread :: "Chats list \<Rightarrow> int" where
  "totalUnread cl =
     foldl (\<lambda>s c. if isMute c = Some 0 then s + num_or (unread c) 0 else s) 0 cl"

text \<open>
  The comparator of \<open>sortList\<close>:
  \<^verbatim>\<open>(a, b) => (b.isTop || 0) - (a.isTop || 0) || (b.messageTime || 0) - (a.messageTime || 0)\<close>
\<close>

definition compareChats :: "Chats \<Rightarrow> Chats \<Rightarrow> int" where
  "compareChats a b =
     int_or (num_or (isTop b) 0 - num_or (isTop a) 0)
            (num_or (messageTime b) 0 - num_or (messageTime a) 0)"

definition sortList :: "Chats list \<Rightarrow> Chats list" where
  "sortList cl = array_sort compareChats cl"

text \<open>The two sort keys as the comparator reads them.\<close>

definition topKey :: "Chats \<Rightarrow> int" where
  "topKey c = num_or (isTop c) 0"

definition timeKey :: "Chats \<Rightarrow> int" where
  "timeKey c = num_or (messageTime c) 0"

text \<open>\<open>a\<close> may stand before \<open>b\<close> in a list ordered by \<open>(isTop desc, messageTime desc)\<close>.\<close>

definition chat_before :: "Chats \<Rightarrow> Chats \<Rightarrow> bool" where
  "chat_before a b \<longleftrightarrow> topKey b < topKey a \<or> (topKey a = topKey b \<and> timeKey b \<le> timeKey a)"

text \<open>The two conversations of the specification's sorting scenario.\<close>

definition chatA :: Chats where
  "chatA = \<lparr>chatId = ''A'', toId = ''a'', chatType = 1003, name = ''A'', message = '''',
     messageTime = Some 200, sequence = Some 200, unread = Some 0, isTop = Some 0,
     isMute = Some 0\<rparr>"

definition chatB :: Chats where
  "chatB = \<lparr>chatId = ''B'', toId = ''b'', chatType = 1003, name = ''B'', message = '''',
     messageTime = Some 50, sequence = Some 50, unread = Some 0, isTop = Some 1,
     isMute = Some 0\<rparr>"

section \<open>Queue priority of an inbound envelope (core.ts)\<close>

text \<open>
  The table \<open>MessageType\<close> of \<open>@/constants/MessageType\<close> is not among the sources; the
  codes that \<open>core.ts\<close> names are taken as a parameter.
\<close>

record MessageTypeCodes =
  REGISTER :: int
  REGISTER_SUCCESS :: int
  REGISTER_FAILED :: int
  HEART_BEAT :: int
  HEART_BEAT_SUCCESS :: int
  HEART_BEAT_FAILED :: int
  FORCE_LOGOUT :: int
  LOGIN_EXPIRED :: int
  REFRESH_TOKEN :: int
  SINGLE_MESSAGE :: int
  GROUP_MESSAGE :: int
  VIDEO_MESSAGE :: int
  GROUP_OPERATION :: int
  MESSAGE_OPERATION :: int

datatype Priority = URGENT | HIGH | NORMAL | LOW

definition getMessagePriority :: "MessageTypeCodes \<Rightarrow> int \<Rightarrow> Priority" where
  "getMessagePriority MessageType code =
     (if code = FORCE_LOGOUT MessageType \<or> code = LOGIN_EXPIRED MessageType then URGENT
      else if code = VIDEO_MESSAGE MessageType then HIGH
      else if code = HEART_BEAT_SUCCESS MessageType \<or> code = REGISTER_SUCCESS MessageType then LOW
      else NORMAL)"

text \<open>The codes of the table are pairwise different.\<close>

definition codes_of :: "MessageTypeCodes \<Rightarrow> int list" where
  "codes_of t =
     [REGISTER t, REGISTER_SUCCESS t, REGISTER_FAILED t, HEART_BEAT t, HEART_BEAT_SUCCESS t,
      HEART_BEAT_FAILED t, FORCE_LOGOUT t, LOGIN_EXPIRED t, REFRESH_TOKEN t, SINGLE_MESSAGE t,
      GROUP_MESSAGE t, VIDEO_MESSAGE t, GROUP_OPERATION t, MESSAGE_OPERATION t]"

text \<open>A table with pairwise different codes, for evaluating the functions that take one.\<close>

definition sampleCodes :: MessageTypeCodes where
  "sampleCodes =
     \<lparr>REGISTER = 200, REGISTER_SUCCESS = 201, REGISTER_FAILED = 202, HEART_BEAT = 206,
      HEART_BEAT_SUCCESS = 207, HEART_BEAT_FAILED = 208, FORCE_LOGOUT = 204,
      LOGIN_EXPIRED = 203, REFRESH_TOKEN = 205, SINGLE_MESSAGE = 1003, GROUP_MESSAGE = 1004,
      VIDEO_MESSAGE = 1005, GROUP_OPERATION = 1007, MESSAGE_OPERATION = 1008\<rparr>"

section \<open>Reconciling a message into the chat list (store/modules/chat.ts)\<close>

text \<open>
  A JavaScript value as far as message bodies need it. Numbers are integers here; \<open>raw == null\<close>
  is true of \<open>JUndefined\<close> and \<open>JNull\<close>. An object is the list of its own properties in
  insertion order.
\<close>

datatype jsval =
    JUndefined
  | JNull
  | JBool bool
  | JNum int
  | JStr string
  | JArr "jsval list"
  | JObj "(string \<times> jsval) list"

text \<open>\<open>s || d\<close> on strings: the empty string is falsy.\<close>

definition str_or :: "string \<Rightarrow> string \<Rightarrow> string" where
  "str_or s d = (if s = [] then d else s)"

text \<open>The result of \<open>buildMessagePreview\<close> (hooks/useChatInput.ts).\<close>

record PreviewResult =
  html :: string
  plainText :: string
  originalText :: string

text \<open>
  What \<open>getUserNameByType\<close> returns (store/modules/chat.ts): the object \<open>getters.currentName\<close>
  itself, which is a computed reference of Vue and no string (the function returns it
  without reading its \<open>value\<close>); or a string; or \<open>undefined\<close>.
\<close>

datatype NameResult = CurrentNameRef | NameString string | NameUndefined

text \<open>
  The object \<open>recallBody\<close> that \<open>handleRecall\<close> builds, with its five properties \<open>_recalled\<close>,
  \<open>operatorId\<close>, \<open>recallTime\<close>, \<open>reason\<close> and \<open>name\<close>. Because \<open>name\<close> can hold the reference
  object, it is not plain data like a \<open>jsval\<close>.
\<close>

record Tombstone =
  tombRecalled :: bool
  tombOperatorId :: string
  tombRecallTime :: int
  tombReason :: string
  tombName :: NameResult

text \<open>
  The \<open>messageBody\<close> of a message in the store: plain data, or, once \<open>handleRecall\<close> has
  replaced it, the object \<open>recallBody\<close>.
\<close>

datatype BodyValue = PlainBody jsval | RecalledBody Tombstone

text \<open>
  The fields of \<open>IMessage\<close> (models/index.ts). \<open>msgTime\<close> and \<open>msgSequence\<close> are the message's
  \<open>messageTime\<close> and \<open>sequence\<close>; the store reads them as \<open>message.messageTime || now\<close>, so
  they may be missing.
\<close>

record IMessage =
  fromId :: string
  messageId :: "string option"
  messageTempId :: string
  messageContentType :: int
  msgTime :: "int option"
  msgSequence :: "int option"
  messageBody :: BodyValue

text \<open>
  What the store reads from its surroundings: the local user's id, the notification setting,
  and \<open>buildPreview\<close>. The preview builder composes localized text and HTML and is a parameter:
  it returns \<open>None\<close> where the source returns \<open>null\<close> (its \<open>catch\<close>).
\<close>

record ChatEnv =
  ownerId :: string
  notificationMessage :: bool
  buildPreview :: "IMessage \<Rightarrow> PreviewResult option"

text \<open>
  The work the store hands to the idle task executor (\<open>addTask\<close>), in the order queued:
  \<open>persist\<close> (\<open>insertOrUpdate\<close> and \<open>insertOrUpdateFTS\<close> of a chat row), the \<open>updateById\<close> of
  \<open>updateRead\<close>, and the task of \<open>handleRecall\<close> (\<open>updateById\<close> of the message row, then
  \<open>deleteFTSById\<close>; the flag says whether the mapper is the single-chat one). The task of
  \<open>handleRecall\<close> holds the object \<open>recallBody\<close>: \<open>JSON.stringify(recallBody)\<close> is evaluated
  when the task runs.
\<close>

datatype Task =
    InsertOrUpdateChat Chats
  | UpdateChatUnread string int
  | RecallMessageTask bool string Tombstone int

text \<open>
  The store's state: the three reactive fields the modelled operations touch, the queue of
  the idle task executor, and the number of times the alert sound was played.
  \<open>currentChat\<close> holds the fields of the open conversation's object.
\<close>

record ChatState =
  chatList :: "Chats list"
  messageList :: "IMessage list"
  currentChat :: "Chats option"
  idleTasks :: "Task list"
  alerts :: nat

text \<open>
  \<open>findChatIndex\<close> (hooks/useChatInput.ts), called through \<open>findIdx\<close>:
  \<^verbatim>\<open>if (!Array.isArray(chatList) || !chatId) return -1;
  return chatList.findIndex((chat) => chat?.chatId === chatId);\<close>
\<close>

definition findIdx :: "ChatState \<Rightarrow> string \<Rightarrow> nat option" where
  "findIdx st cid = (if cid = [] then None else findIndex (\<lambda>c. chatId c = cid) (chatList st))"

text \<open>
  \<open>upsert\<close> with a full row: \<open>Object.assign\<close> onto the entry found, or \<open>push\<close>. The second
  component is the index returned, \<open>None\<close> for \<open>-1\<close>.
\<close>

definition upsert :: "Chats \<Rightarrow> ChatState \<Rightarrow> ChatState \<times> nat option" where
  "upsert chat st =
     (if chatId chat = [] then (st, None)
      else case findIdx st (chatId chat) of
        Some idx \<Rightarrow> (st\<lparr>chatList := (chatList st)[idx := chat]\<rparr>, Some idx)
      | None \<Rightarrow> (st\<lparr>chatList := chatList st @ [chat]\<rparr>, Some (length (chatList st))))"

text \<open>\<open>persist\<close>: nothing for a row without \<open>chatId\<close>, one idle task otherwise.\<close>

definition persist :: "Chats \<Rightarrow> Task list" where
  "persist chat = (if chatId chat = [] then [] else [InsertOrUpdateChat chat])"

text \<open>
  \<open>String(chat.toId) === String(state.currentChat?.toId)\<close>: with no open conversation the
  right side is the string \<open>undefined\<close>.
\<close>

definition isCurrent :: "Chats option \<Rightarrow> Chats \<Rightarrow> bool" where
  "isCurrent cur chat \<longleftrightarrow>
     toId chat = (case cur of None \<Rightarrow> ''undefined'' | Some c \<Rightarrow> toId c)"

text \<open>
  \<open>updateWithMsg(chat, message?, isNew)\<close>. The source mutates the object \<open>chat\<close> and queues
  \<open>persist\<close>; the model returns the object after the call and the tasks queued, and \<open>None\<close>
  where the source returns at \<open>if (!chat) return\<close>. \<open>now\<close> is the reading of \<open>Date.now()\<close>.
\<close>

definition updateWithMsg ::
  "ChatEnv \<Rightarrow> int \<Rightarrow> Chats option \<Rightarrow> Chats option \<Rightarrow> IMessage option \<Rightarrow> bool
     \<Rightarrow> (Chats \<times> Task list) option" where
  "updateWithMsg env now cur chat0 msg isNew =
     (case chat0 of
        None \<Rightarrow> None
      | Some chat \<Rightarrow>
         (case msg of
            None \<Rightarrow>
              (let chat1 = chat\<lparr>message := [], messageTime := Some now, sequence := Some now,
                               unread := Some 0\<rparr>
               in Some (chat1, persist (chat1\<lparr>message := []\<rparr>)))
          | Some m \<Rightarrow>
              (let preview = buildPreview env m;
                   chat1 =
                     (if \<not> isCurrent cur chat \<and> \<not> isNew
                      then chat\<lparr>unread := Some (num_or (unread chat) 0 + 1),
                                message := (case preview of None \<Rightarrow> [] | Some p \<Rightarrow> html p)\<rparr>
                      else chat\<lparr>message := (case preview of None \<Rightarrow> [] | Some p \<Rightarrow> plainText p)\<rparr>);
                   chat2 = chat1\<lparr>messageTime := Some (num_or (msgTime m) now),
                                 sequence := Some (num_or (msgSequence m) now)\<rparr>
               in Some (chat2,
                    persist (chat2\<lparr>message :=
                      (case preview of None \<Rightarrow> []
                       | Some p \<Rightarrow> str_or (originalText p) (plainText p))\<rparr>)))))"


text \<open>\<open>triggerNotify\<close>: the alert sound, unless the chat is muted or notifications are off.\<close>

definition triggerNotify :: "ChatEnv \<Rightarrow> Chats \<Rightarrow> IMessage option \<Rightarrow> ChatState \<Rightarrow> ChatState" where
  "triggerNotify env chat msg st =
     (if notificationMessage env \<and> isMute chat = Some 0 \<and> msg \<noteq> None
      then st\<lparr>alerts := Suc (alerts st)\<rparr> else st)"

text \<open>
  \<open>createOrUpdate(message, id)\<close>. Its two collaborator calls are parameters: \<open>queryChat\<close> is
  \<open>chats?.[0] ?? null\<close> of the local query for \<open>(ownerId, toId = id)\<close>, \<open>fetchChat\<close> the result
  of \<open>api.GetChat\<close>; both are \<open>None\<close> when the call failed inside \<open>exec\<close>. The \<open>loading\<close> flag
  is left out.
\<close>

definition createOrUpdate ::
  "ChatEnv \<Rightarrow> int \<Rightarrow> Chats option \<Rightarrow> Chats option \<Rightarrow> IMessage option \<Rightarrow> ChatState
     \<Rightarrow> ChatState" where
  "createOrUpdate env now queryChat fetchChat msg st =
     (case queryChat of
        Some chat \<Rightarrow>
          (let st1 = (if map_option fromId msg \<noteq> Some (ownerId env)
                      then triggerNotify env chat msg st else st);
               st2 =
                 (case findIdx st1 (chatId chat) of
                    Some idx \<Rightarrow>
                      (case updateWithMsg env now (currentChat st1) (Some (chatList st1 ! idx))
                              msg False of
                         None \<Rightarrow> st1
                       | Some (chat', tasks) \<Rightarrow>
                           st1\<lparr>chatList := (chatList st1)[idx := chat'],
                               idleTasks := idleTasks st1 @ tasks\<rparr>)
                  | None \<Rightarrow>
                      (case updateWithMsg env now (currentChat st1) (Some chat) msg True of
                         None \<Rightarrow> st1
                       | Some (chat', tasks) \<Rightarrow>
                           fst (upsert chat' (st1\<lparr>idleTasks := idleTasks st1 @ tasks\<rparr>))))
           in st2\<lparr>chatList := sortList (chatList st2)\<rparr>)
      | None \<Rightarrow>
          (case fetchChat of
             None \<Rightarrow> st
           | Some chat \<Rightarrow>
               (let st2 =
                  (case updateWithMsg env now (currentChat st) (Some chat) msg True of
                     None \<Rightarrow> st
                   | Some (chat', tasks) \<Rightarrow>
                       fst (upsert chat' (st\<lparr>idleTasks := idleTasks st @ tasks\<rparr>)))
                in st2\<lparr>chatList := sortList (chatList st2)\<rparr>)))"

text \<open>A small store for evaluating the operations: one conversation with Bob, closed.\<close>

definition sampleEnv :: ChatEnv where
  "sampleEnv = \<lparr>ownerId = ''me'', notificationMessage = True,
     buildPreview = (\<lambda>m. case messageBody m of
        PlainBody (JObj [(k, JStr t)]) \<Rightarrow> Some \<lparr>html = t, plainText = t, originalText = t\<rparr>
      | _ \<Rightarrow> None)\<rparr>"

definition sampleChat :: Chats where
  "sampleChat = \<lparr>chatId = ''c1'', toId = ''bob'', chatType = 1003, name = ''Bob'',
     message = ''newest'', messageTime = Some 1000, sequence = Some 10, unread = Some 2,
     isTop = Some 0, isMute = Some 0\<rparr>"

definition olderMessage :: IMessage where
  "olderMessage = \<lparr>fromId = ''bob'', messageId = Some ''m5'', messageTempId = ''t5'',
     messageContentType = 1, msgTime = Some 900, msgSequence = Some 5,
     messageBody = PlainBody (JObj [(''text'', JStr ''older'')])\<rparr>"

definition sampleState :: ChatState where
  "sampleState = \<lparr>chatList = [sampleChat], messageList = [], currentChat = None,
     idleTasks = [], alerts = 0\<rparr>"


section \<open>Group operations (store/modules/group.ts)\<close>

text \<open>
  \<open>GroupMemberRole\<close> and \<open>GroupMuteStatus\<close> (constants/index.ts), and the operation codes of
  \<open>MessageContentType\<close> (constants/MessageContentType.ts) that key the handler table.
\<close>

definition OWNER :: int where "OWNER = 0"
definition ADMIN :: int where "ADMIN = 1"
definition MEMBER :: int where "MEMBER = 2"

definition MUTED :: int where "MUTED = 0"
definition NORMAL_STATUS :: int where "NORMAL_STATUS = 1"

definition JOIN_GROUP :: int where "JOIN_GROUP = 402"
definition LEAVE_GROUP :: int where "LEAVE_GROUP = 403"
definition KICK_FROM_GROUP :: int where "KICK_FROM_GROUP = 404"
definition PROMOTE_TO_ADMIN :: int where "PROMOTE_TO_ADMIN = 405"
definition DEMOTE_FROM_ADMIN :: int where "DEMOTE_FROM_ADMIN = 406"
definition TRANSFER_GROUP_OWNER :: int where "TRANSFER_GROUP_OWNER = 407"
definition SET_GROUP_INFO :: int where "SET_GROUP_INFO = 408"
definition SET_GROUP_ANNOUNCEMENT :: int where "SET_GROUP_ANNOUNCEMENT = 409"
definition SET_GROUP_JOIN_MODE :: int where "SET_GROUP_JOIN_MODE = 410"
definition MUTE_MEMBER :: int where "MUTE_MEMBER = 415"
definition UNMUTE_MEMBER :: int where "UNMUTE_MEMBER = 416"
definition MUTE_ALL :: int where "MUTE_ALL = 417"
definition UNMUTE_ALL :: int where "UNMUTE_ALL = 418"
definition SET_MEMBER_ROLE :: int where "SET_MEMBER_ROLE = 419"
definition REMOVE_GROUP :: int where "REMOVE_GROUP = 420"

text \<open>
  \<open>GroupMember\<close> and \<open>GroupInfo\<close> (declared in \<open>@/types/group\<close>, not among the sources): the
  fields the store reads and writes. \<open>memberName\<close>, \<open>memberAvatar\<close>, \<open>memberAlias\<close> and \<open>infoAvatar\<close> are the
  source's \<open>name\<close>, \<open>avatar\<close> and \<open>alias\<close>.
\<close>

record GroupMember =
  userId :: string
  memberName :: string
  memberAvatar :: "string option"
  role :: int
  mute :: int
  muteEndTime :: "int option"
  memberAlias :: "string option"

record GroupInfo =
  groupId :: string
  groupName :: string
  infoAvatar :: string
  notification :: string
  muteAll :: int
  applyJoinType :: "int option"

text \<open>
  \<open>GroupOperationMessageBody\<close> (models/index.ts). \<open>opGroupId\<close>, \<open>opGroupName\<close>, \<open>opGroupAvatar\<close>
  and \<open>opOperatorId\<close> are its \<open>groupId\<close>, \<open>groupName\<close>, \<open>groupAvatar\<close> and \<open>operatorId\<close>. Of
  \<open>extra\<close> the four entries the handlers read are kept, each \<open>None\<close> when \<open>extra\<close> or the entry
  is missing.
\<close>

record GroupOperationMessageBody =
  operationType :: int
  opGroupId :: string
  opGroupName :: "string option"
  opGroupAvatar :: "string option"
  opOperatorId :: string
  targetUserId :: "string option"
  extraMuteDuration :: "int option"
  extraNewRole :: "int option"
  extraAnnouncement :: "string option"
  extraJoinMode :: "int option"
  description :: "string option"

datatype GroupLogEntry = UnhandledOperation int

text \<open>
  The store's state: \<open>members\<close> is the object keyed by user id; \<open>groupLog\<close> collects the
  warnings written by \<open>applyGroupOperation\<close>.
\<close>

record GroupState =
  members :: "string \<rightharpoonup> GroupMember"
  info :: "GroupInfo option"
  currentGroupId :: "string option"
  loading :: bool
  groupLog :: "GroupLogEntry list"

text \<open>
  The guard every member handler starts with,
  \<^verbatim>\<open>if (id && state.members[id]) { ... state.members[id] ... }\<close>,
  with the change made to the member found.
\<close>

definition onMember :: "string option \<Rightarrow> (GroupMember \<Rightarrow> GroupMember) \<Rightarrow> GroupState \<Rightarrow> GroupState" where
  "onMember uid f st =
     (case uid of
        None \<Rightarrow> st
      | Some u \<Rightarrow>
          (if u = [] then st
           else case members st u of
             None \<Rightarrow> st
           | Some m \<Rightarrow> st\<lparr>members := (members st)(u \<mapsto> f m)\<rparr>))"

text \<open>The same guard with \<open>delete state.members[id]\<close>.\<close>

definition deleteMember :: "string option \<Rightarrow> GroupState \<Rightarrow> GroupState" where
  "deleteMember uid st =
     (case uid of
        None \<Rightarrow> st
      | Some u \<Rightarrow>
          (if u = [] then st
           else case members st u of
             None \<Rightarrow> st
           | Some m \<Rightarrow> st\<lparr>members := (members st)(u := None)\<rparr>))"

text \<open>
  The guard of the handlers that change the group's info,
  \<^verbatim>\<open>if (state.info && state.info.groupId === o.groupId) { ... }\<close>.
\<close>

definition onInfo ::
  "GroupOperationMessageBody \<Rightarrow> (GroupInfo \<Rightarrow> GroupInfo) \<Rightarrow> GroupState \<Rightarrow> GroupState" where
  "onInfo o' f st =
     (case info st of
        None \<Rightarrow> st
      | Some i \<Rightarrow> if groupId i = opGroupId o' then st\<lparr>info := Some (f i)\<rparr> else st)"

text \<open>
  \<open>loadMembers\<close>; \<open>getGroupMember\<close> is the result of \<open>api.GetGroupMember\<close> through \<open>exec\<close>,
  \<open>None\<close> when the call failed or returned nothing. The call is asynchronous in the source;
  the model runs it to its end.
\<close>

definition loadMembers ::
  "(string \<Rightarrow> (string \<rightharpoonup> GroupMember) option) \<Rightarrow> string \<Rightarrow> GroupState \<Rightarrow> GroupState" where
  "loadMembers getGroupMember gid st =
     (if gid = [] then st
      else let st1 = st\<lparr>loading := True, currentGroupId := Some gid\<rparr>;
               st2 = (case getGroupMember gid of None \<Rightarrow> st1 | Some res \<Rightarrow> st1\<lparr>members := res\<rparr>)
           in st2\<lparr>loading := False\<rparr>)"

text \<open>
  The handler table of \<open>applyGroupOperation\<close>: the handler stored under an operation-type
  code, \<open>None\<close> where the table has no entry. \<open>now\<close> is the reading of \<open>Date.now()\<close>.
\<close>

definition handlers ::
  "(string \<Rightarrow> (string \<rightharpoonup> GroupMember) option) \<Rightarrow> int \<Rightarrow> int
     \<Rightarrow> (GroupOperationMessageBody \<Rightarrow> GroupState \<Rightarrow> GroupState) option" where
  "handlers getGroupMember now c =
     (if c = KICK_FROM_GROUP then Some (\<lambda>o'. deleteMember (targetUserId o'))
      else if c = PROMOTE_TO_ADMIN then
        Some (\<lambda>o'. onMember (targetUserId o') (\<lambda>m. m\<lparr>role := ADMIN\<rparr>))
      else if c = DEMOTE_FROM_ADMIN then
        Some (\<lambda>o'. onMember (targetUserId o') (\<lambda>m. m\<lparr>role := MEMBER\<rparr>))
      else if c = TRANSFER_GROUP_OWNER then
        Some (\<lambda>o' st.
          onMember (targetUserId o') (\<lambda>m. m\<lparr>role := OWNER\<rparr>)
            (onMember (Some (opOperatorId o')) (\<lambda>m. m\<lparr>role := MEMBER\<rparr>) st))
      else if c = MUTE_MEMBER then
        Some (\<lambda>o'. onMember (targetUserId o')
          (\<lambda>m. let dur = (case extraMuteDuration o' of None \<Rightarrow> 0 | Some d \<Rightarrow> d)
                in m\<lparr>mute := MUTED,
                     muteEndTime := (if 0 < dur then Some (now + dur * 1000) else None)\<rparr>))
      else if c = UNMUTE_MEMBER then
        Some (\<lambda>o'. onMember (targetUserId o')
          (\<lambda>m. m\<lparr>mute := NORMAL_STATUS, muteEndTime := None\<rparr>))
      else if c = MUTE_ALL then Some (\<lambda>o'. onInfo o' (\<lambda>i. i\<lparr>muteAll := MUTED\<rparr>))
      else if c = UNMUTE_ALL then Some (\<lambda>o'. onInfo o' (\<lambda>i. i\<lparr>muteAll := NORMAL_STATUS\<rparr>))
      else if c = SET_MEMBER_ROLE then
        Some (\<lambda>o'. onMember (targetUserId o')
          (\<lambda>m. m\<lparr>role := (case extraNewRole o' of None \<Rightarrow> MEMBER | Some r \<Rightarrow> r)\<rparr>))
      else if c = SET_GROUP_INFO then
        Some (\<lambda>o'. onInfo o'
          (\<lambda>i. let i1 = (case opGroupName o' of None \<Rightarrow> i
                          | Some n \<Rightarrow> if n = [] then i else i\<lparr>groupName := n\<rparr>)
                in (case opGroupAvatar o' of None \<Rightarrow> i1
                    | Some a \<Rightarrow> if a = [] then i1 else i1\<lparr>infoAvatar := a\<rparr>)))
      else if c = SET_GROUP_ANNOUNCEMENT then
        Some (\<lambda>o'.
          let content = (case extraAnnouncement o' of Some a \<Rightarrow> a
                         | None \<Rightarrow> (case description o' of Some d \<Rightarrow> d | None \<Rightarrow> []))
          in onInfo o' (\<lambda>i. if content = [] then i else i\<lparr>notification := content\<rparr>))
      else if c = SET_GROUP_JOIN_MODE then
        Some (\<lambda>o' st.
          let mode = (case extraJoinMode o' of Some j \<Rightarrow> j
                      | None \<Rightarrow> (case info st of None \<Rightarrow> 0
                                  | Some i \<Rightarrow> (case applyJoinType i of None \<Rightarrow> 0 | Some j \<Rightarrow> j)))
          in onInfo o' (\<lambda>i. i\<lparr>applyJoinType := Some mode\<rparr>) st)
      else if c = REMOVE_GROUP then
        Some (\<lambda>o' st.
          (case info st of
             None \<Rightarrow> st
           | Some i \<Rightarrow>
               if groupId i = opGroupId o'
               then st\<lparr>members := Map.empty, info := None, currentGroupId := None\<rparr>
               else st))
      else if c = JOIN_GROUP then Some (\<lambda>o'. loadMembers getGroupMember (opGroupId o'))
      else if c = LEAVE_GROUP then Some (\<lambda>o'. deleteMember (targetUserId o'))
      else None)"

text \<open>
  \<open>applyGroupOperation(code, op)\<close>. No handler can throw on the modelled data, so the \<open>catch\<close>
  of the source has no branch here.
\<close>

definition applyGroupOperation ::
  "(string \<Rightarrow> (string \<rightharpoonup> GroupMember) option) \<Rightarrow> int \<Rightarrow> int
     \<Rightarrow> GroupOperationMessageBody option \<Rightarrow> GroupState \<Rightarrow> GroupState" where
  "applyGroupOperation getGroupMember now code op st =
     (case op of
        None \<Rightarrow> st
      | Some o' \<Rightarrow>
          (if opGroupId o' = [] then st
           else case handlers getGroupMember now (operationType o') of
             Some handler \<Rightarrow> handler o' st
           | None \<Rightarrow> st\<lparr>groupLog := groupLog st @ [UnhandledOperation (operationType o')]\<rparr>))"

text \<open>The operation-type codes the table has a handler for.\<close>

definition handledCodes :: "int list" where
  "handledCodes =
     [KICK_FROM_GROUP, PROMOTE_TO_ADMIN, DEMOTE_FROM_ADMIN, TRANSFER_GROUP_OWNER, MUTE_MEMBER,
      UNMUTE_MEMBER, MUTE_ALL, UNMUTE_ALL, SET_MEMBER_ROLE, SET_GROUP_INFO,
      SET_GROUP_ANNOUNCEMENT, SET_GROUP_JOIN_MODE, REMOVE_GROUP, JOIN_GROUP, LEAVE_GROUP]"

text \<open>The users whose role is OWNER.\<close>

definition owners :: "GroupState \<Rightarrow> string set" where
  "owners st = {u. \<exists>m. members st u = Some m \<and> role m = OWNER}"

text \<open>A group of two for evaluating the operations: Alice owns it, Bob is a member.\<close>

definition sampleMember :: "string \<Rightarrow> int \<Rightarrow> GroupMember" where
  "sampleMember u r = \<lparr>userId = u, memberName = u, memberAvatar = None, role = r,
     mute = NORMAL_STATUS, muteEndTime = None, memberAlias = None\<rparr>"

definition sampleGroup :: GroupState where
  "sampleGroup = \<lparr>members = [''alice'' \<mapsto> sampleMember ''alice'' OWNER,
                              ''bob'' \<mapsto> sampleMember ''bob'' MEMBER],
     info = None, currentGroupId = Some ''g1'', loading = False, groupLog = []\<rparr>"

definition sampleOp :: "int \<Rightarrow> string \<Rightarrow> GroupOperationMessageBody" where
  "sampleOp c target = \<lparr>operationType = c, opGroupId = ''g1'', opGroupName = None,
     opGroupAvatar = None, opOperatorId = ''alice'', targetUserId = Some target,
     extraMuteDuration = None, extraNewRole = None, extraAnnouncement = None,
     extraJoinMode = None, description = None\<rparr>"

section \<open>Safe execution (utils/ErrorHandler.ts)\<close>

text \<open>
  \<open>ErrorSeverity\<close> (utils/ErrorTypes.ts) and the fields \<open>AppError\<close> adds to \<open>Error\<close>. An
  \<open>Error\<close> object here has \<open>appFields = None\<close> when it is a plain \<open>Error\<close>: then
  \<open>"code" in error\<close> and \<open>"severity" in error\<close> are false.
\<close>

datatype ErrorSeverity = SEVERITY_LOW | SEVERITY_MEDIUM | SEVERITY_HIGH | SEVERITY_CRITICAL

record AppErrorFields =
  errCode :: string
  errCategory :: string
  errSeverity :: ErrorSeverity

record Error =
  errName :: string
  errMessage :: string
  errStack :: "string option"
  appFields :: "AppErrorFields option"

text \<open>
  What a function can throw: an \<open>Error\<close> object, as the cast \<open>error as Error\<close> of the source
  expects, or a primitive (a string, a number, a boolean, \<open>null\<close> or \<open>undefined\<close>), which the
  language allows as well.
\<close>

datatype primitive = PUndefined | PNull | PBool bool | PNum int | PStr string

datatype thrown = ThrownError Error | ThrownPrimitive primitive

text \<open>What \<open>await fn()\<close> does: it yields a value or it throws.\<close>

datatype 'a outcome = Returned 'a | Threw thrown

text \<open>
  \<open>HandleErrorContext\<close>, without \<open>data\<close> (it is only copied into the log record). The
  interface declares no \<open>fallback\<close>. The model keeps a property of that name, which a caller
  can put into the object all the same, to show that nothing in this module reads it. (The
  stores build such an object, but for the \<open>safeExecute\<close> they import from
  utils/ExceptionHandler, which is not among the sources; this section is about the
  \<open>execute\<close> of utils/ErrorHandler.ts and says nothing of that other function.)
\<close>

record 'a HandleErrorContext =
  operation :: "string option"
  showNotification :: "bool option"
  silent :: "bool option"
  customMessage :: "string option"
  fallback :: "'a option"

text \<open>
  The calls made to the logger: the method (\<open>prettyError\<close>, \<open>prettyWarn\<close>, \<open>prettyInfo\<close>),
  which of the five message prefixes, and \<open>operation\<close> (\<open>None\<close> where the source prints its
  text for an unknown operation, \<open>operation || ...\<close>); or \<open>console.error\<close>.
\<close>

datatype LogMethod = PrettyError | PrettyWarn | PrettyInfo

datatype LogPrefix = Fatal | Serious | Warning | Information | PlainError

datatype LogCall = Pretty LogMethod LogPrefix "string option" | ConsoleError

datatype Notice = ElNotification string | ElMessage string

text \<open>
  What the module changes: the logger's output, the keys of \<open>notificationDebounce\<close> (the
  timers that remove them three seconds later are outside the model), the notices shown.
\<close>

record HandlerState =
  logCalls :: "LogCall list"
  notificationDebounce :: "string option list"
  notices :: "Notice list"

datatype TypeError = TypeError

text \<open>\<open>operation || ...\<close>: \<open>None\<close> for a missing or empty operation name.\<close>

definition operationText :: "string option \<Rightarrow> string option" where
  "operationText op = (case op of None \<Rightarrow> None | Some s \<Rightarrow> if s = [] then None else Some s)"

text \<open>\<open>logError\<close> on an \<open>Error\<close> object: the logger call it ends with.\<close>

definition logError :: "Error \<Rightarrow> string option \<Rightarrow> LogCall" where
  "logError error op =
     (case appFields error of
        Some a \<Rightarrow>
          (case errSeverity a of
             SEVERITY_CRITICAL \<Rightarrow> Pretty PrettyError Fatal (operationText op)
           | SEVERITY_HIGH \<Rightarrow> Pretty PrettyError Serious (operationText op)
           | SEVERITY_MEDIUM \<Rightarrow> Pretty PrettyWarn Warning (operationText op)
           | SEVERITY_LOW \<Rightarrow> Pretty PrettyInfo Information (operationText op))
      | None \<Rightarrow> Pretty PrettyError PlainError (operationText op))"

text \<open>
  \<open>ErrorNotification.show\<close>. \<open>getUserFriendlyMessage\<close> reads a table of user-facing texts
  that \<open>extendMessages\<close> can change and is a parameter on \<open>Error\<close> objects. On a primitive
  it evaluates \<open>error.name.toLowerCase()\<close>, a \<open>TypeError\<close>; \<open>error.message\<close> is a \<open>TypeError\<close>
  on \<open>null\<close> and \<open>undefined\<close> and \<open>undefined\<close> on the other primitives.

  \<open>notify\<close> is the debounce: nothing is shown while the key is in the map.
\<close>

definition notify :: "string option \<Rightarrow> Notice \<Rightarrow> HandlerState \<Rightarrow> HandlerState" where
  "notify errorKey n st =
     (if errorKey \<in> set (notificationDebounce st) then st
      else st\<lparr>notificationDebounce := errorKey # notificationDebounce st,
              notices := notices st @ [n]\<rparr>)"

definition show_notification ::
  "(Error \<Rightarrow> string) \<Rightarrow> thrown \<Rightarrow> string option \<Rightarrow> HandlerState
     \<Rightarrow> TypeError option \<times> HandlerState" where
  "show_notification getUserFriendlyMessage error custom st =
     (case error of
        ThrownError e \<Rightarrow>
          (let msg = (case custom of None \<Rightarrow> getUserFriendlyMessage e
                      | Some c \<Rightarrow> if c = [] then getUserFriendlyMessage e else c) in
           case appFields e of
             Some a \<Rightarrow>
               (None, notify (Some (errCode a))
                  (if errSeverity a = SEVERITY_CRITICAL then ElNotification msg else ElMessage msg) st)
           | None \<Rightarrow> (None, notify (Some (errMessage e)) (ElMessage msg) st))
      | ThrownPrimitive v \<Rightarrow>
          (case custom of
             None \<Rightarrow> (Some TypeError, st)
           | Some c \<Rightarrow>
               if c = [] then (Some TypeError, st)
               else if v = PNull \<or> v = PUndefined then (Some TypeError, st)
               else (None, notify None (ElMessage c) st)))"

text \<open>
  For an \<open>Error\<close> object, by name: the key \<open>show\<close> looks up in the debounce map
  (\<open>isAppError ? error.code : error.message\<close>), and the notice it ends with
  (\<open>ElNotification\<close> for a critical \<open>AppError\<close>, \<open>ElMessage\<close> otherwise, with the text
  \<open>customMessage || getUserFriendlyMessage(error)\<close>).
\<close>

definition debounceKey :: "Error \<Rightarrow> string option" where
  "debounceKey e =
     (case appFields e of Some a \<Rightarrow> Some (errCode a) | None \<Rightarrow> Some (errMessage e))"

definition shownNotice :: "(Error \<Rightarrow> string) \<Rightarrow> Error \<Rightarrow> string option \<Rightarrow> Notice" where
  "shownNotice getUserFriendlyMessage e custom =
     (let msg = (case custom of None \<Rightarrow> getUserFriendlyMessage e
                 | Some c \<Rightarrow> if c = [] then getUserFriendlyMessage e else c) in
      case appFields e of
        Some a \<Rightarrow> if errSeverity a = SEVERITY_CRITICAL then ElNotification msg else ElMessage msg
      | None \<Rightarrow> ElMessage msg)"

text \<open>
  \<open>handle\<close>. On a primitive \<open>logError\<close> throws before it reaches the logger (\<open>error.message\<close>
  on \<open>null\<close>, \<open>"code" in error\<close> on the others) and the \<open>catch\<close> around it calls
  \<open>console.error\<close>.
\<close>

definition handle ::
  "(Error \<Rightarrow> string) \<Rightarrow> thrown \<Rightarrow> 'a HandleErrorContext \<Rightarrow> HandlerState
     \<Rightarrow> TypeError option \<times> HandlerState" where
  "handle getUserFriendlyMessage error context st =
     (if silent context = Some True then (None, st)
      else
        let st1 = st\<lparr>logCalls := logCalls st @
                    [case error of ThrownError e \<Rightarrow> logError e (operation context)
                     | ThrownPrimitive v \<Rightarrow> ConsoleError]\<rparr>
        in if showNotification context \<noteq> Some False
           then show_notification getUserFriendlyMessage error (customMessage context) st1
           else (None, st1))"

text \<open>
  \<open>execute\<close> (exported bound as \<open>safeExecute\<close>):
  \<^verbatim>\<open>try { return await fn(); } catch (error) { this.handle(error as Error, context); return undefined; }\<close>
  The promise it returns resolves with the function's value or with \<open>undefined\<close> (\<open>None\<close>), or
  rejects when \<open>handle\<close> itself throws.
\<close>

datatype 'a settled = Resolved "'a option" | Rejected TypeError

definition execute ::
  "(Error \<Rightarrow> string) \<Rightarrow> 'a outcome \<Rightarrow> 'a HandleErrorContext \<Rightarrow> HandlerState
     \<Rightarrow> 'a settled \<times> HandlerState" where
  "execute getUserFriendlyMessage fn context st =
     (case fn of
        Returned v \<Rightarrow> (Resolved (Some v), st)
      | Threw error \<Rightarrow>
          (case handle getUserFriendlyMessage error context st of
             (None, st') \<Rightarrow> (Resolved None, st')
           | (Some e, st') \<Rightarrow> (Rejected e, st')))"

text \<open>
  A failed request, and a context that carries a fallback list besides the declared fields.
\<close>

definition sampleError :: Error where
  "sampleError = \<lparr>errName = ''Error'', errMessage = ''request failed'', errStack = None,
     appFields = None\<rparr>"

definition sampleContext :: "string list HandleErrorContext" where
  "sampleContext = \<lparr>operation = Some ''queryChat'', showNotification = None, silent = Some False,
     customMessage = None, fallback = Some [''cached'']\<rparr>"

definition emptyHandler :: HandlerState where
  "emptyHandler = \<lparr>logCalls = [], notificationDebounce = [], notices = []\<rparr>"

section \<open>The platform's JSON, restricted to integers and one-byte characters\<close>

text \<open>
  \<open>JSON.parse\<close> and \<open>JSON.stringify\<close> are not code of the repository. The functions that call
  them take them as a parameter (the record \<open>JSON\<close> below). To evaluate those functions on
  concrete texts, this section defines one JSON over \<open>jsval\<close>: a recursive-descent parser of
  the JSON grammar without fractions and exponents and with the four-digit hexadecimal escapes below 256, and the
  serializer that writes what \<open>JSON.stringify\<close> writes for such values.
\<close>

text \<open>The four whitespace characters of the grammar.\<close>

definition is_ws :: "char \<Rightarrow> bool" where
  "is_ws c \<longleftrightarrow> c = CHR '' '' \<or> c = CHR 0x09 \<or> c = CHR 0x0A \<or> c = CHR 0x0D"

definition skip_ws :: "string \<Rightarrow> string" where
  "skip_ws cs = dropWhile is_ws cs"

text \<open>Decimal digits, and the decimal text of a number.\<close>

definition is_digit :: "char \<Rightarrow> bool" where
  "is_digit c \<longleftrightarrow> c \<in> set ''0123456789''"

definition digit_val :: "char \<Rightarrow> nat" where
  "digit_val c = of_char c - 48"

definition digit_char :: "nat \<Rightarrow> char" where
  "digit_char k = ''0123456789'' ! k"

fun dec :: "nat \<Rightarrow> string" where
  "dec n = (if n < 10 then [digit_char n] else dec (n div 10) @ [digit_char (n mod 10)])"

declare dec.simps [simp del]

definition show_int :: "int \<Rightarrow> string" where
  "show_int i = (if i < 0 then CHR ''-'' # dec (nat (- i)) else dec (nat i))"

definition dec_val :: "string \<Rightarrow> nat" where
  "dec_val ds = foldl (\<lambda>a c. 10 * a + digit_val c) 0 ds"

text \<open>
  A number: an optional minus sign and the longest run of digits, which must not be empty
  and must not start with a zero unless it is the single digit 0.
\<close>

definition parse_number :: "string \<Rightarrow> (jsval \<times> string) option" where
  "parse_number cs =
     (let neg = (case cs of c # r \<Rightarrow> c = CHR ''-'' | [] \<Rightarrow> False);
          r = (if neg then tl cs else cs);
          ds = takeWhile is_digit r
      in if ds = [] \<or> (hd ds = CHR ''0'' \<and> 1 < length ds) then None
         else Some (JNum (if neg then - int (dec_val ds) else int (dec_val ds)),
                    dropWhile is_digit r))"

text \<open>
  The characters of a string after its opening quote, up to the closing quote: escapes are
  resolved, an unescaped control character is refused.
\<close>

definition hex_val :: "char \<Rightarrow> nat option" where
  "hex_val c =
     (if is_digit c then Some (digit_val c)
      else if c \<in> set ''abcdef'' then Some (of_char c - 87)
      else if c \<in> set ''ABCDEF'' then Some (of_char c - 55)
      else None)"

definition hex_char :: "nat \<Rightarrow> char" where
  "hex_char k = ''0123456789abcdef'' ! k"

fun parse_chars :: "string \<Rightarrow> (string \<times> string) option" where
  "parse_chars [] = None"
| "parse_chars (c # cs) =
     (if c = CHR 0x22 then Some ([], cs)
      else if c = CHR 0x5C then
        (case cs of
           [] \<Rightarrow> None
         | e # cs' \<Rightarrow>
             (if e = CHR ''u'' then
                (case cs' of
                   h1 # h2 # h3 # h4 # cs'' \<Rightarrow>
                     (case (hex_val h1, hex_val h2, hex_val h3, hex_val h4) of
                        (Some a, Some b, Some c', Some d) \<Rightarrow>
                          (if a = 0 \<and> b = 0
                           then map_option (\<lambda>(s, r). (char_of (16 * c' + d) # s, r)) (parse_chars cs'')
                           else None)
                      | _ \<Rightarrow> None)
                 | _ \<Rightarrow> None)
              else
                (case (if e = CHR 0x22 then Some (CHR 0x22)
                       else if e = CHR 0x5C then Some (CHR 0x5C)
                       else if e = CHR ''/'' then Some (CHR ''/'')
                       else if e = CHR ''b'' then Some (CHR 0x08)
                       else if e = CHR ''f'' then Some (CHR 0x0C)
                       else if e = CHR ''n'' then Some (CHR 0x0A)
                       else if e = CHR ''r'' then Some (CHR 0x0D)
                       else if e = CHR ''t'' then Some (CHR 0x09)
                       else None) of
                   None \<Rightarrow> None
                 | Some x \<Rightarrow> map_option (\<lambda>(s, r). (x # s, r)) (parse_chars cs'))))
      else if (of_char c :: nat) < 32 then None
      else map_option (\<lambda>(s, r). (c # s, r)) (parse_chars cs))"

text \<open>
  A value, the elements of an array after its first bracket, and the members of an object
  after its first brace. The first argument bounds the number of nested calls; \<open>mini_parse\<close>
  starts with a bound that no text exhausts, and refuses a text with anything but whitespace
  after the value.
\<close>

fun parse_value :: "nat \<Rightarrow> string \<Rightarrow> (jsval \<times> string) option"
  and parse_elements :: "nat \<Rightarrow> string \<Rightarrow> (jsval list \<times> string) option"
  and parse_members :: "nat \<Rightarrow> string \<Rightarrow> ((string \<times> jsval) list \<times> string) option" where
  "parse_value 0 cs = None"
| "parse_value (Suc n) cs =
     (case skip_ws cs of
        [] \<Rightarrow> None
      | c # r \<Rightarrow>
          (if c = CHR ''n'' then (if take 3 r = ''ull'' then Some (JNull, drop 3 r) else None)
           else if c = CHR ''t'' then (if take 3 r = ''rue'' then Some (JBool True, drop 3 r) else None)
           else if c = CHR ''f'' then (if take 4 r = ''alse'' then Some (JBool False, drop 4 r) else None)
           else if c = CHR 0x22 then map_option (\<lambda>(s, r'). (JStr s, r')) (parse_chars r)
           else if c = CHR ''['' then
             (case skip_ws r of
                [] \<Rightarrow> None
              | d # r' \<Rightarrow> if d = CHR '']'' then Some (JArr [], r')
                          else map_option (\<lambda>(vs, r''). (JArr vs, r'')) (parse_elements n (d # r')))
           else if c = CHR ''{'' then
             (case skip_ws r of
                [] \<Rightarrow> None
              | d # r' \<Rightarrow> if d = CHR ''}'' then Some (JObj [], r')
                          else map_option (\<lambda>(ms, r''). (JObj ms, r'')) (parse_members n (d # r')))
           else parse_number (c # r)))"
| "parse_elements 0 cs = None"
| "parse_elements (Suc n) cs =
     (case parse_value n cs of
        None \<Rightarrow> None
      | Some (v, r) \<Rightarrow>
          (case skip_ws r of
             [] \<Rightarrow> None
           | d # r' \<Rightarrow>
               if d = CHR '']'' then Some ([v], r')
               else if d = CHR '','' then map_option (\<lambda>(vs, r''). (v # vs, r'')) (parse_elements n r')
               else None))"
| "parse_members 0 cs = None"
| "parse_members (Suc n) cs =
     (case skip_ws cs of
        [] \<Rightarrow> None
      | q # r0 \<Rightarrow>
          if q \<noteq> CHR 0x22 then None
          else
            (case parse_chars r0 of
               None \<Rightarrow> None
             | Some (k, r1) \<Rightarrow>
                 (case skip_ws r1 of
                    [] \<Rightarrow> None
                  | colon # r2 \<Rightarrow>
                      if colon \<noteq> CHR '':'' then None
                      else
                        (case parse_value n r2 of
                           None \<Rightarrow> None
                         | Some (v, r3) \<Rightarrow>
                             (case skip_ws r3 of
                                [] \<Rightarrow> None
                              | d # r4 \<Rightarrow>
                                  if d = CHR ''}'' then Some ([(k, v)], r4)
                                  else if d = CHR '','' then
                                    map_option (\<lambda>(ms, r5). ((k, v) # ms, r5)) (parse_members n r4)
                                  else None)))))"

definition mini_parse :: "string \<Rightarrow> jsval option" where
  "mini_parse s =
     (case parse_value (2 * length s + 1) s of
        None \<Rightarrow> None
      | Some (v, r) \<Rightarrow> if skip_ws r = [] then Some v else None)"

text \<open>
  The serializer. A property whose value is \<open>undefined\<close> is left out of an object; inside an
  array \<open>undefined\<close> is written \<open>null\<close>. (At top level \<open>JSON.stringify(undefined)\<close> is not a
  string; the stores never pass it.)
\<close>

definition escape_char :: "char \<Rightarrow> string" where
  "escape_char c =
     (if c = CHR 0x22 then [CHR 0x5C, CHR 0x22]
      else if c = CHR 0x5C then [CHR 0x5C, CHR 0x5C]
      else if c = CHR 0x08 then [CHR 0x5C, CHR ''b'']
      else if c = CHR 0x0C then [CHR 0x5C, CHR ''f'']
      else if c = CHR 0x0A then [CHR 0x5C, CHR ''n'']
      else if c = CHR 0x0D then [CHR 0x5C, CHR ''r'']
      else if c = CHR 0x09 then [CHR 0x5C, CHR ''t'']
      else if (of_char c :: nat) < 32
        then [CHR 0x5C, CHR ''u'', CHR ''0'', CHR ''0'',
              hex_char (of_char c div 16), hex_char (of_char c mod 16)]
      else [c])"

definition quote :: "string \<Rightarrow> string" where
  "quote s = CHR 0x22 # concat (map escape_char s) @ [CHR 0x22]"

fun join :: "string \<Rightarrow> string list \<Rightarrow> string" where
  "join sep [] = []"
| "join sep [x] = x"
| "join sep (x # y # ys) = x @ sep @ join sep (y # ys)"

fun mini_stringify :: "jsval \<Rightarrow> string" where
  "mini_stringify JUndefined = ''null''"
| "mini_stringify JNull = ''null''"
| "mini_stringify (JBool b) = (if b then ''true'' else ''false'')"
| "mini_stringify (JNum i) = show_int i"
| "mini_stringify (JStr s) = quote s"
| "mini_stringify (JArr vs) = ''['' @ join '','' (map mini_stringify vs) @ '']''"
| "mini_stringify (JObj ms) =
     ''{'' @ join '','' (map (\<lambda>(k, v). quote k @ '':'' @ mini_stringify v)
                          (filter (\<lambda>(k, v). v \<noteq> JUndefined) ms)) @ ''}''"

text \<open>
  For the proof that the parser accepts the serializer's output: what may follow a value,
  the statement proved by induction on the value, and the text of one object member.
\<close>

definition delim :: "string \<Rightarrow> bool" where
  "delim rest \<longleftrightarrow> rest = [] \<or> hd rest \<in> {CHR '','', CHR '']'', CHR ''}''}"

definition accepted :: "jsval \<Rightarrow> bool" where
  "accepted v \<longleftrightarrow>
     (\<forall>n rest. delim rest \<longrightarrow> 2 * length (mini_stringify v @ rest) + 1 \<le> n \<longrightarrow>
        (\<exists>v'. parse_value n (mini_stringify v @ rest) = Some (v', rest)))"

definition member_text :: "string \<times> jsval \<Rightarrow> string" where
  "member_text = (\<lambda>(k, v). quote k @ '':'' @ mini_stringify v)"

section \<open>The body codec of the chat store (store/modules/chat.ts)\<close>

text \<open>
  \<open>JSON.parse\<close> and \<open>JSON.stringify\<close> belong to the platform and are a parameter of the
  functions that call them: \<open>parse\<close> is \<open>None\<close> where \<open>JSON.parse\<close> throws its \<open>SyntaxError\<close>.
\<close>

record JSON =
  parse :: "string \<Rightarrow> jsval option"
  stringify :: "jsval \<Rightarrow> string"

text \<open>The restricted JSON of the previous section as such a platform.\<close>

definition miniJSON :: JSON where
  "miniJSON = \<lparr>parse = mini_parse, stringify = mini_stringify\<rparr>"

text \<open>
  \<open>String.prototype.trim\<close> removes the white space and line terminator code units of the
  language from both ends. The characters of this model are the code units below 256; of
  these, white space and line terminators are U+0009 to U+000D, the space U+0020 and the
  no-break space U+00A0. (The others, U+1680, U+2000 to U+200A, U+2028, U+2029, U+202F, U+205F,
  U+3000 and U+FEFF, lie above 255.)
\<close>

definition js_space :: "char \<Rightarrow> bool" where
  "js_space c \<longleftrightarrow>
     c \<in> {CHR 0x09, CHR 0x0A, CHR 0x0B, CHR 0x0C, CHR 0x0D, CHR 0x20, CHR 0xA0}"

definition trim :: "string \<Rightarrow> string" where
  "trim s = rev (dropWhile js_space (rev (dropWhile js_space s)))"

text \<open>
  \<open>String(x)\<close>: the names of the primitives, the decimal digits of a number, the elements of
  an array joined by commas (\<open>null\<close> and \<open>undefined\<close> as empty strings).
\<close>

fun String_of :: "jsval \<Rightarrow> string" where
  "String_of JUndefined = ''undefined''"
| "String_of JNull = ''null''"
| "String_of (JBool b) = (if b then ''true'' else ''false'')"
| "String_of (JNum i) = show_int i"
| "String_of (JStr s) = s"
| "String_of (JArr vs) =
     join '','' (map (\<lambda>v. if v = JNull \<or> v = JUndefined then [] else String_of v) vs)"
| "String_of (JObj ms) = ''[object Object]''"

text \<open>
  \<open>parseBody(raw)\<close>: every path returns an object; the \<open>catch\<close> around \<open>JSON.parse\<close> returns
  \<open>{ text: raw }\<close>.
\<close>

definition parseBody :: "JSON \<Rightarrow> jsval \<Rightarrow> jsval" where
  "parseBody J raw =
     (case raw of
        JUndefined \<Rightarrow> JObj []
      | JNull \<Rightarrow> JObj []
      | JArr vs \<Rightarrow> JObj [(''parts'', JArr vs)]
      | JObj ms \<Rightarrow> JObj ms
      | JStr s \<Rightarrow>
          (case parse J (trim s) of
             None \<Rightarrow> JObj [(''text'', JStr s)]
           | Some parsed \<Rightarrow>
               (case parsed of
                  JArr vs \<Rightarrow> JObj [(''parts'', JArr vs)]
                | JObj ms \<Rightarrow> JObj ms
                | _ \<Rightarrow> JObj [(''text'', JStr (String_of parsed))]))
      | _ \<Rightarrow> JObj [(''text'', JStr (String_of raw))])"

text \<open>\<open>stringifyBody(raw)\<close>.\<close>

definition stringifyBody :: "JSON \<Rightarrow> jsval \<Rightarrow> string" where
  "stringifyBody J raw =
     (case raw of
        JUndefined \<Rightarrow> ''{}''
      | JNull \<Rightarrow> ''{}''
      | JStr s \<Rightarrow>
          (case parse J s of
             Some parsed \<Rightarrow> s
           | None \<Rightarrow> stringify J (JObj [(''text'', JStr s)]))
      | _ \<Rightarrow> stringify J raw)"

section \<open>Decoding a message body (models/index.ts)\<close>

text \<open>
  The codes of \<open>MessageContentType\<close> that \<open>createMessageBody\<close> switches on.
\<close>

definition TIP :: int where "TIP = 0"
definition TEXT :: int where "TEXT = 1"
definition IMAGE :: int where "IMAGE = 100"
definition VIDEO :: int where "VIDEO = 110"
definition AUDIO :: int where "AUDIO = 120"
definition FILE :: int where "FILE = 200"
definition LOCATION :: int where "LOCATION = 300"
definition INVITE_TO_GROUP :: int where "INVITE_TO_GROUP = 401"
definition JOIN_APPROVE_GROUP :: int where "JOIN_APPROVE_GROUP = 413"
definition EDIT_MESSAGE :: int where "EDIT_MESSAGE = 451"
definition RECALL_MESSAGE :: int where "RECALL_MESSAGE = 453"
definition COMPLEX :: int where "COMPLEX = 500"

text \<open>
  The body classes. Each constructor copies fields of the object it is given; the model
  keeps the class and that object.
\<close>

datatype BodyClass =
    TextMessageBody | ImageMessageBody | VideoMessageBody | AudioMessageBody | FileMessageBody
  | SystemMessageBody | RecallBody | EditMessageBody | GroupOperationBody
  | GroupInviteMessageBody | LocationMessageBody | ComplexMessageBody

datatype MessageBody = MessageBody BodyClass jsval

text \<open>
  The three ways \<open>createMessageBody\<close> throws: its own two \<open>Error\<close>s, and the \<open>TypeError\<close> of a
  constructor that reads a field of \<open>null\<close> (\<open>ComplexMessageBody\<close> reads \<open>init?.parts\<close> and
  does not throw).
\<close>

datatype DecodeError = InvalidJSON string | UnknownContentType int | FieldOfNull

definition construct :: "BodyClass \<Rightarrow> jsval \<Rightarrow> DecodeError + MessageBody" where
  "construct cls init =
     (if (init = JNull \<or> init = JUndefined) \<and> cls \<noteq> ComplexMessageBody then Inl FieldOfNull
      else Inr (MessageBody cls init))"

text \<open>The class a content type is mapped to, in the order of the \<open>switch\<close>.\<close>

definition bodyClass :: "MessageTypeCodes \<Rightarrow> int \<Rightarrow> BodyClass option" where
  "bodyClass MessageType ct =
     (if ct = TEXT then Some TextMessageBody
      else if ct = IMAGE then Some ImageMessageBody
      else if ct = VIDEO then Some VideoMessageBody
      else if ct = AUDIO then Some AudioMessageBody
      else if ct = FILE then Some FileMessageBody
      else if ct = TIP then Some SystemMessageBody
      else if ct = RECALL_MESSAGE then Some RecallBody
      else if ct = EDIT_MESSAGE then Some EditMessageBody
      else if ct = GROUP_OPERATION MessageType then Some GroupOperationBody
      else if ct = INVITE_TO_GROUP then Some GroupInviteMessageBody
      else if ct = JOIN_APPROVE_GROUP then Some GroupInviteMessageBody
      else if ct = LOCATION then Some LocationMessageBody
      else if ct = COMPLEX then Some ComplexMessageBody
      else None)"

definition createMessageBody ::
  "JSON \<Rightarrow> MessageTypeCodes \<Rightarrow> jsval \<Rightarrow> int \<Rightarrow> DecodeError + MessageBody" where
  "createMessageBody J MessageType raw ct =
     (case (case raw of
              JStr s \<Rightarrow> (case parse J s of None \<Rightarrow> Inl (InvalidJSON s) | Some p \<Rightarrow> Inr p)
            | _ \<Rightarrow> Inr raw) of
        Inl e \<Rightarrow> Inl e
      | Inr parsedRaw \<Rightarrow>
          (case bodyClass MessageType ct of
             None \<Rightarrow> Inl (UnknownContentType ct)
           | Some cls \<Rightarrow> construct cls parsedRaw))"

text \<open>The content types with a mapping.\<close>

definition knownContentTypes :: "MessageTypeCodes \<Rightarrow> int list" where
  "knownContentTypes MessageType =
     [TEXT, IMAGE, VIDEO, AUDIO, FILE, TIP, RECALL_MESSAGE, EDIT_MESSAGE,
      GROUP_OPERATION MessageType, INVITE_TO_GROUP, JOIN_APPROVE_GROUP, LOCATION, COMPLEX]"

section \<open>Recalling a message (store/modules/chat.ts)\<close>



text \<open>
  \<open>member?.name || member?.userId\<close> for
  \<open>member = getters.membersExcludeSelf.value.find(m => m.userId === id)\<close>.
  \<open>membersExcludeSelf\<close> is the group store's getter, the members as pairs of \<open>userId\<close> and
  \<open>name\<close>; \<open>None\<close> is \<open>undefined\<close>.
\<close>

definition memberName :: "(string \<times> string) list \<Rightarrow> string \<Rightarrow> string option" where
  "memberName membersExcludeSelf uid =
     (case find (\<lambda>m. fst m = uid) membersExcludeSelf of
        None \<Rightarrow> None
      | Some m \<Rightarrow> Some (str_or (snd m) (fst m)))"






section \<open>The persisted store\<close>


















section \<open>Theorems\<close>

subsection \<open>The aggregate unread badge\<close>

lemma totalUnread_foldl:
  "foldl (\<lambda>s c. if isMute c = Some 0 then s + num_or (unread c) 0 else s) a cs =
     a + sum_list (map (\<lambda>c. num_or (unread c) 0) (filter (\<lambda>c. isMute c = Some 0) cs))"
  by (induction cs arbitrary: a) simp_all

text \<open>
  C10. \<open>getTotalUnread\<close> is the sum of \<open>unread || 0\<close> over exactly the chats whose \<open>isMute\<close>
  is \<open>0\<close>: a chat with any other \<open>isMute\<close> contributes nothing to the badge, whatever its own
  \<open>unread\<close> field holds. That field is kept up to date all the same: what \<open>updateWithMsg\<close>
  stores in \<open>unread\<close> does not depend on \<open>isMute\<close>.
\<close>

theorem totalUnread_sums_unmuted:
  "totalUnread cl =
     sum_list (map (\<lambda>c. num_or (unread c) 0) (filter (\<lambda>c. isMute c = Some 0) cl)) \<and>
   map_option (unread \<circ> fst) (updateWithMsg env now cur (Some (chat\<lparr>isMute := mu\<rparr>)) msg isNew) =
     map_option (unread \<circ> fst) (updateWithMsg env now cur (Some chat) msg isNew)"
  by (simp add: totalUnread_def totalUnread_foldl updateWithMsg_def isCurrent_def Let_def
      split: option.splits)

subsection \<open>Sorting the chat list\<close>

lemma mset_insert_by: "mset (insert_by cmp x xs) = add_mset x (mset xs)"
  by (induction xs) simp_all

lemma mset_array_sort: "mset (array_sort cmp xs) = mset xs"
  by (induction xs) (simp_all add: array_sort_def mset_insert_by)

lemma set_insert_by: "set (insert_by cmp x xs) = insert x (set xs)"
  by (induction xs) auto

lemma compareChats_le: "compareChats a b \<le> 0 \<longleftrightarrow> chat_before a b"
  by (auto simp: compareChats_def chat_before_def int_or_def topKey_def timeKey_def)

lemma chat_before_total: "\<not> chat_before a b \<Longrightarrow> chat_before b a"
  by (auto simp: chat_before_def)

lemma chat_before_trans: "chat_before a b \<Longrightarrow> chat_before b c \<Longrightarrow> chat_before a c"
  by (auto simp: chat_before_def)

lemma chat_before_top: "chat_before a b \<Longrightarrow> topKey b \<le> topKey a"
  by (auto simp: chat_before_def)

lemma sorted_insert_by:
  "sorted_wrt chat_before xs \<Longrightarrow> sorted_wrt chat_before (insert_by compareChats x xs)"
proof (induction xs)
  case Nil
  then show ?case by simp
next
  case (Cons y ys)
  show ?case
  proof (cases "compareChats x y \<le> 0")
    case True
    then have xy: "chat_before x y" by (simp add: compareChats_le)
    have "\<forall>z\<in>set ys. chat_before x z"
      using Cons.prems xy chat_before_trans by auto
    with True xy Cons.prems show ?thesis by simp
  next
    case False
    then have yx: "chat_before y x"
      using chat_before_total compareChats_le by blast
    with False Cons show ?thesis
      by (auto simp: set_insert_by)
  qed
qed

lemma sorted_array_sort: "sorted_wrt chat_before (array_sort compareChats xs)"
  by (induction xs) (simp_all add: array_sort_def sorted_insert_by)

text \<open>
  Inserting \<open>x\<close> never moves it behind an element it compares \<open>\<le> 0\<close> with, so a class of
  elements that compare \<open>\<le> 0\<close> with each other keeps its order.
\<close>

lemma filter_insert_by:
  assumes "\<And>y. P x \<Longrightarrow> P y \<Longrightarrow> cmp x y \<le> 0"
  shows "filter P (insert_by cmp x xs) = (if P x then x # filter P xs else filter P xs)"
  using assms by (induction xs) auto

lemma filter_array_sort:
  assumes "\<And>x y. P x \<Longrightarrow> P y \<Longrightarrow> cmp x y \<le> 0"
  shows "filter P (array_sort cmp xs) = filter P xs"
  using assms by (induction xs) (simp_all add: array_sort_def filter_insert_by)

lemma same_keys_le:
  "topKey x = t \<and> timeKey x = m \<Longrightarrow> topKey y = t \<and> timeKey y = m \<Longrightarrow> compareChats x y \<le> 0"
  by (simp add: compareChats_le chat_before_def)

text \<open>
  C7. After \<open>handleSortChatList\<close> the list is ordered by \<open>isTop\<close> descending, then
  \<open>messageTime\<close> descending (a missing key counts as 0); no chat with a smaller \<open>isTop\<close>
  stands before one with a larger \<open>isTop\<close>, whatever their times; the list holds the same
  chats as before; and the chats that agree on both keys stand in the order they had before
  the sort.
\<close>

theorem sortList_sorted_stable:
  "sorted_wrt chat_before (sortList cl) \<and>
   sorted_wrt (\<lambda>a b. topKey b \<le> topKey a) (sortList cl) \<and>
   mset (sortList cl) = mset cl \<and>
   (\<forall>t m. filter (\<lambda>c. topKey c = t \<and> timeKey c = m) (sortList cl) =
          filter (\<lambda>c. topKey c = t \<and> timeKey c = m) cl)"
proof -
  have s: "sorted_wrt chat_before (sortList cl)"
    by (simp add: sortList_def sorted_array_sort)
  have t: "sorted_wrt (\<lambda>a b. topKey b \<le> topKey a) (sortList cl)"
    using s chat_before_top by (rule sorted_wrt_mono_rel[rotated])
  have m: "mset (sortList cl) = mset cl"
    by (simp add: sortList_def mset_array_sort)
  have f: "filter (\<lambda>c. topKey c = t \<and> timeKey c = m) (sortList cl) =
          filter (\<lambda>c. topKey c = t \<and> timeKey c = m) cl" for t m
    unfolding sortList_def by (rule filter_array_sort) (rule same_keys_le)
  from s t m f show ?thesis by blast
qed

text \<open>
  The scenario of the specification: A is unpinned with the newer time 200, B is pinned with
  the older time 50; the sorted list is \<open>[B, A]\<close>.
\<close>

theorem sortList_sorted_stable_witness:
  "sortList [chatA, chatB] = [chatB, chatA] \<and>
   sorted_wrt chat_before (sortList [chatA, chatB]) \<and>
   mset (sortList [chatA, chatB]) = mset [chatA, chatB]"
proof -
  have "sortList [chatA, chatB] = [chatB, chatA]"
    by (simp add: sortList_def array_sort_def compareChats_def int_or_def num_or_def
        chatA_def chatB_def)
  with sortList_sorted_stable [of "[chatA, chatB]"] show ?thesis by simp
qed

subsection \<open>Queue priority\<close>

text \<open>
  C4 (as the code has it). For a table of pairwise different codes: FORCE_LOGOUT and
  LOGIN_EXPIRED are URGENT, VIDEO_MESSAGE is HIGH, HEART_BEAT_SUCCESS and REGISTER_SUCCESS are
  LOW, and every other code is NORMAL: SINGLE_MESSAGE, GROUP_MESSAGE, GROUP_OPERATION and
  MESSAGE_OPERATION, and also REFRESH_TOKEN, HEART_BEAT, HEART_BEAT_FAILED, REGISTER and
  REGISTER_FAILED.
\<close>

theorem getMessagePriority_table:
  assumes "distinct (codes_of t)"
  shows "getMessagePriority t (FORCE_LOGOUT t) = URGENT \<and>
    getMessagePriority t (LOGIN_EXPIRED t) = URGENT \<and>
    getMessagePriority t (VIDEO_MESSAGE t) = HIGH \<and>
    getMessagePriority t (HEART_BEAT_SUCCESS t) = LOW \<and>
    getMessagePriority t (REGISTER_SUCCESS t) = LOW \<and>
    getMessagePriority t (SINGLE_MESSAGE t) = NORMAL \<and>
    getMessagePriority t (GROUP_MESSAGE t) = NORMAL \<and>
    getMessagePriority t (GROUP_OPERATION t) = NORMAL \<and>
    getMessagePriority t (MESSAGE_OPERATION t) = NORMAL \<and>
    getMessagePriority t (REFRESH_TOKEN t) = NORMAL \<and>
    getMessagePriority t (HEART_BEAT t) = NORMAL \<and>
    getMessagePriority t (HEART_BEAT_FAILED t) = NORMAL \<and>
    getMessagePriority t (REGISTER t) = NORMAL \<and>
    getMessagePriority t (REGISTER_FAILED t) = NORMAL \<and>
    (\<forall>code. code \<notin> {FORCE_LOGOUT t, LOGIN_EXPIRED t, VIDEO_MESSAGE t, HEART_BEAT_SUCCESS t,
                    REGISTER_SUCCESS t} \<longrightarrow> getMessagePriority t code = NORMAL)"
proof -
  have d: "distinct [REGISTER t, REGISTER_SUCCESS t, REGISTER_FAILED t, HEART_BEAT t, HEART_BEAT_SUCCESS t,
      HEART_BEAT_FAILED t, FORCE_LOGOUT t, LOGIN_EXPIRED t, REFRESH_TOKEN t, SINGLE_MESSAGE t,
      GROUP_MESSAGE t, VIDEO_MESSAGE t, GROUP_OPERATION t, MESSAGE_OPERATION t]"
    using assms by (simp only: codes_of_def)
  have 1: "getMessagePriority t (FORCE_LOGOUT t) = URGENT"
    by (simp add: getMessagePriority_def)
  have 2: "getMessagePriority t (LOGIN_EXPIRED t) = URGENT"
    by (simp add: getMessagePriority_def)
  have 3: "getMessagePriority t (VIDEO_MESSAGE t) = HIGH"
    using d by (auto simp: getMessagePriority_def)
  have 4: "getMessagePriority t (HEART_BEAT_SUCCESS t) = LOW"
    using d by (auto simp: getMessagePriority_def)
  have 5: "getMessagePriority t (REGISTER_SUCCESS t) = LOW"
    using d by (auto simp: getMessagePriority_def)
  have 6: "getMessagePriority t (SINGLE_MESSAGE t) = NORMAL"
    using d by (auto simp: getMessagePriority_def)
  have 7: "getMessagePriority t (GROUP_MESSAGE t) = NORMAL"
    using d by (auto simp: getMessagePriority_def)
  have 8: "getMessagePriority t (GROUP_OPERATION t) = NORMAL"
    using d by (auto simp: getMessagePriority_def)
  have 9: "getMessagePriority t (MESSAGE_OPERATION t) = NORMAL"
    using d by (auto simp: getMessagePriority_def)
  have 10: "getMessagePriority t (REFRESH_TOKEN t) = NORMAL"
    using d by (auto simp: getMessagePriority_def)
  have 11: "getMessagePriority t (HEART_BEAT t) = NORMAL"
    using d by (auto simp: getMessagePriority_def)
  have 12: "getMessagePriority t (HEART_BEAT_FAILED t) = NORMAL"
    using d by (auto simp: getMessagePriority_def)
  have 13: "getMessagePriority t (REGISTER t) = NORMAL"
    using d by (auto simp: getMessagePriority_def)
  have 14: "getMessagePriority t (REGISTER_FAILED t) = NORMAL"
    using d by (auto simp: getMessagePriority_def)
  have 15: "\<forall>code. code \<notin> {FORCE_LOGOUT t, LOGIN_EXPIRED t, VIDEO_MESSAGE t, HEART_BEAT_SUCCESS t,
                    REGISTER_SUCCESS t} \<longrightarrow> getMessagePriority t code = NORMAL"
    by (simp add: getMessagePriority_def)
  from 1 2 3 4 5 6 7 8 9 10 11 12 13 14 15 show ?thesis by blast
qed

theorem getMessagePriority_table_witness:
  "distinct (codes_of sampleCodes) \<and>
   getMessagePriority sampleCodes 204 = URGENT \<and>
   getMessagePriority sampleCodes 1005 = HIGH \<and>
   getMessagePriority sampleCodes 207 = LOW \<and>
   getMessagePriority sampleCodes 1003 = NORMAL \<and>
   getMessagePriority sampleCodes 205 = NORMAL \<and>
   getMessagePriority sampleCodes 7 = NORMAL"
proof -
  have d: "distinct (codes_of sampleCodes)"
    by (simp add: codes_of_def sampleCodes_def)
  from getMessagePriority_table [OF d] d show ?thesis
    by (simp add: sampleCodes_def)
qed

text \<open>
  C4 as the specification states it fails: REFRESH_TOKEN is not URGENT, and the failed
  heartbeat and register responses are not LOW.
\<close>

theorem getMessagePriority_refresh_token_counterexample:
  "getMessagePriority sampleCodes (REFRESH_TOKEN sampleCodes) = NORMAL \<and>
   getMessagePriority sampleCodes (HEART_BEAT_FAILED sampleCodes) = NORMAL \<and>
   getMessagePriority sampleCodes (REGISTER_FAILED sampleCodes) = NORMAL"
  by (simp add: getMessagePriority_def sampleCodes_def)

subsection \<open>Reconciling a message\<close>



text \<open>
  C1 (as the code has it). \<open>updateWithMsg\<close> with a message always stores the message's
  \<open>sequence\<close> and \<open>messageTime\<close> (the clock reading where the field is missing or 0) and the
  preview built from the message; it never compares the message's \<open>sequence\<close> with the stored
  one.
\<close>

theorem updateWithMsg_overwrites:
  "\<exists>c ts. updateWithMsg env now cur (Some chat) (Some m) isNew = Some (c, ts) \<and>
     sequence c = Some (num_or (msgSequence m) now) \<and>
     messageTime c = Some (num_or (msgTime m) now) \<and>
     message c = (case buildPreview env m of None \<Rightarrow> []
                  | Some p \<Rightarrow> if \<not> isCurrent cur chat \<and> \<not> isNew then html p else plainText p)"
  by (simp add: updateWithMsg_def Let_def split: option.splits)

text \<open>
  C1 as the specification states it fails: the conversation holds sequence 10, time 1000 and
  the preview \<open>newest\<close>; reconciling a message with sequence 5 and time 900 leaves it with
  sequence 5, time 900 and the older message's preview.
\<close>

theorem sequence_regression_counterexample:
  "sequence sampleChat = Some 10 \<and> msgSequence olderMessage = Some 5 \<and>
   map_option (\<lambda>(c, ts). (sequence c, messageTime c, message c))
     (updateWithMsg sampleEnv 2000 None (Some sampleChat) (Some olderMessage) False) =
     Some (Some 5, Some 900, ''older'') \<and>
   chatList (createOrUpdate sampleEnv 2000 (Some sampleChat) None (Some olderMessage) sampleState) =
     [sampleChat\<lparr>message := ''older'', messageTime := Some 900, sequence := Some 5,
                  unread := Some 3\<rparr>]"
  by (simp add: updateWithMsg_def createOrUpdate_def sampleEnv_def sampleChat_def olderMessage_def
      sampleState_def isCurrent_def num_or_def persist_def findIdx_def triggerNotify_def
      sortList_def array_sort_def Let_def)












subsection \<open>Group operations\<close>

lemmas op_codes =
  JOIN_GROUP_def LEAVE_GROUP_def KICK_FROM_GROUP_def PROMOTE_TO_ADMIN_def DEMOTE_FROM_ADMIN_def
  TRANSFER_GROUP_OWNER_def SET_GROUP_INFO_def SET_GROUP_ANNOUNCEMENT_def SET_GROUP_JOIN_MODE_def
  MUTE_MEMBER_def UNMUTE_MEMBER_def MUTE_ALL_def UNMUTE_ALL_def SET_MEMBER_ROLE_def REMOVE_GROUP_def

lemma handlers_kick: "handlers g now KICK_FROM_GROUP = Some (\<lambda>o'. deleteMember (targetUserId o'))"
  by (simp add: handlers_def)

lemma handlers_transfer:
  "handlers g now TRANSFER_GROUP_OWNER =
     Some (\<lambda>o' st. onMember (targetUserId o') (\<lambda>m. m\<lparr>role := OWNER\<rparr>)
            (onMember (Some (opOperatorId o')) (\<lambda>m. m\<lparr>role := MEMBER\<rparr>) st))"
  by (simp add: handlers_def op_codes)

lemma handlers_unknown: "c \<notin> set handledCodes \<Longrightarrow> handlers g now c = None"
  by (simp add: handlers_def handledCodes_def)

lemma deleteMember_absent:
  "(case uid of None \<Rightarrow> True | Some u \<Rightarrow> members st u = None) \<Longrightarrow> deleteMember uid st = st"
  by (simp add: deleteMember_def split: option.splits)

lemma kick_absent_noop:
  assumes "operationType o' = KICK_FROM_GROUP"
    and "\<forall>u. targetUserId o' = Some u \<longrightarrow> members st u = None"
  shows "applyGroupOperation g now code (Some o') st = st"
  using assms
  by (simp add: applyGroupOperation_def handlers_kick deleteMember_def split: option.splits)

lemma transfer_owner:
  assumes "operationType o' = TRANSFER_GROUP_OWNER" and "opGroupId o' \<noteq> []"
    and "opOperatorId o' = p" and "targetUserId o' = Some t"
    and "p \<noteq> []" and "t \<noteq> []" and "p \<noteq> t"
    and "members st p = Some mp" and "members st t = Some mt"
    and "owners st = {p}"
  shows "owners (applyGroupOperation g now code (Some o') st) = {t} \<and>
         map_option role (members (applyGroupOperation g now code (Some o') st) p) = Some MEMBER \<and>
         dom (members (applyGroupOperation g now code (Some o') st)) = dom (members st)"
proof -
  let ?st' = "applyGroupOperation g now code (Some o') st"
  have m: "members ?st' = (members st)(p \<mapsto> mp\<lparr>role := MEMBER\<rparr>, t \<mapsto> mt\<lparr>role := OWNER\<rparr>)"
    using assms by (simp add: applyGroupOperation_def handlers_transfer onMember_def)
  have o: "\<And>u m. members st u = Some m \<Longrightarrow> role m = OWNER \<Longrightarrow> u = p"
    using assms(10) by (auto simp: owners_def)
  have "owners ?st' = {t}"
    unfolding owners_def m using assms(7) o
    by (auto simp: OWNER_def MEMBER_def split: if_splits)
  moreover have "map_option role (members ?st' p) = Some MEMBER"
    unfolding m using assms(7) by simp
  moreover have "dom (members ?st') = dom (members st)"
    unfolding m using assms(8,9) by auto
  ultimately show ?thesis by blast
qed

lemma unknown_operation_logged:
  assumes "operationType o' \<notin> set handledCodes" and "opGroupId o' \<noteq> []"
  shows "applyGroupOperation g now code (Some o') st =
           st\<lparr>groupLog := groupLog st @ [UnhandledOperation (operationType o')]\<rparr>"
  using assms by (simp add: applyGroupOperation_def handlers_unknown)

text \<open>
  C6. A KICK_FROM_GROUP operation whose target is not in the members map (or names no target)
  leaves the whole state as it is. A TRANSFER_GROUP_OWNER operation of a group (non-empty group
  id) whose operator \<open>p\<close> is the one owner, with the target \<open>t\<close> another member and both ids
  non-empty, leaves exactly one owner, \<open>t\<close>, with \<open>p\<close> demoted to MEMBER and nobody added or
  removed. An operation-type code without a handler adds one warning to the log and changes
  nothing else.
\<close>

theorem applyGroupOperation_rules:
  "(operationType o' = KICK_FROM_GROUP \<and> (\<forall>u. targetUserId o' = Some u \<longrightarrow> members st u = None)
      \<longrightarrow> applyGroupOperation g now code (Some o') st = st) \<and>
   (operationType o' = TRANSFER_GROUP_OWNER \<and> opGroupId o' \<noteq> [] \<and>
    opOperatorId o' = p \<and> targetUserId o' = Some t \<and> p \<noteq> [] \<and> t \<noteq> [] \<and> p \<noteq> t \<and>
    members st p = Some mp \<and> members st t = Some mt \<and> owners st = {p}
      \<longrightarrow> owners (applyGroupOperation g now code (Some o') st) = {t} \<and>
          map_option role (members (applyGroupOperation g now code (Some o') st) p) =
            Some MEMBER \<and>
          dom (members (applyGroupOperation g now code (Some o') st)) = dom (members st)) \<and>
   (operationType o' \<notin> set handledCodes \<and> opGroupId o' \<noteq> []
      \<longrightarrow> applyGroupOperation g now code (Some o') st =
            st\<lparr>groupLog := groupLog st @ [UnhandledOperation (operationType o')]\<rparr>)"
  using kick_absent_noop [of o' st g now code]
    transfer_owner [of o' p t st mp mt g now code]
    unknown_operation_logged [of o' g now code st]
  by blast

theorem applyGroupOperation_rules_witness:
  "owners sampleGroup = {''alice''} \<and>
   owners (applyGroupOperation (\<lambda>g. None) 0 1007 (Some (sampleOp TRANSFER_GROUP_OWNER ''bob''))
     sampleGroup) = {''bob''} \<and>
   map_option role (members (applyGroupOperation (\<lambda>g. None) 0 1007
     (Some (sampleOp TRANSFER_GROUP_OWNER ''bob'')) sampleGroup) ''alice'') = Some MEMBER \<and>
   applyGroupOperation (\<lambda>g. None) 0 1007 (Some (sampleOp KICK_FROM_GROUP ''carol'')) sampleGroup =
     sampleGroup \<and>
   applyGroupOperation (\<lambda>g. None) 0 1007 (Some (sampleOp 999 ''bob'')) sampleGroup =
     sampleGroup\<lparr>groupLog := [UnhandledOperation 999]\<rparr>"
proof -
  have ow: "owners sampleGroup = {''alice''}"
    by (auto simp: owners_def sampleGroup_def sampleMember_def OWNER_def MEMBER_def
        split: if_splits)
  have al: "members sampleGroup ''alice'' = Some (sampleMember ''alice'' OWNER)"
    and bo: "members sampleGroup ''bob'' = Some (sampleMember ''bob'' MEMBER)"
    and ca: "members sampleGroup ''carol'' = None"
    and lg: "groupLog sampleGroup = []"
    by (simp_all add: sampleGroup_def)
  have u: "(999::int) \<notin> set handledCodes"
    by (simp add: handledCodes_def op_codes)
  show ?thesis
    using applyGroupOperation_rules [where o' = "sampleOp TRANSFER_GROUP_OWNER ''bob''"
        and st = sampleGroup and p = "''alice''" and t = "''bob''"
        and mp = "sampleMember ''alice'' OWNER" and mt = "sampleMember ''bob'' MEMBER"
        and g = "\<lambda>g. None" and now = 0 and code = 1007]
      applyGroupOperation_rules [where o' = "sampleOp KICK_FROM_GROUP ''carol''"
        and st = sampleGroup and g = "\<lambda>g. None" and now = 0 and code = 1007]
      applyGroupOperation_rules [where o' = "sampleOp 999 ''bob''"
        and st = sampleGroup and g = "\<lambda>g. None" and now = 0 and code = 1007]
      ow al bo ca lg u
    by (simp add: sampleOp_def op_codes)
qed

subsection \<open>Safe execution\<close>

lemma handle_Error_no_raise: "fst (handle f (ThrownError e) ctx st) = None"
  by (simp add: handle_def show_notification_def Let_def split: option.splits)

lemma execute_Error:
  "execute f (Threw (ThrownError e)) ctx st =
     (Resolved None, snd (handle f (ThrownError e) ctx st))"
  using handle_Error_no_raise [of f e ctx st]
  by (cases "handle f (ThrownError e) ctx st") (simp add: execute_def)

lemma handle_logs:
  "silent ctx \<noteq> Some True \<Longrightarrow>
   logCalls (snd (handle f (ThrownError e) ctx st)) = logCalls st @ [logError e (operation ctx)]"
  by (simp add: handle_def show_notification_def notify_def Let_def split: option.splits)

lemma show_notification_Error:
  "show_notification f (ThrownError e) custom st =
     (None, notify (debounceKey e) (shownNotice f e custom) st)"
  by (simp add: show_notification_def debounceKey_def shownNotice_def Let_def
      split: option.splits)

lemma handle_shows:
  assumes "silent ctx \<noteq> Some True" and "showNotification ctx \<noteq> Some False"
    and "debounceKey e \<notin> set (notificationDebounce st)"
  shows "notices (snd (handle f (ThrownError e) ctx st)) =
           notices st @ [shownNotice f e (customMessage ctx)]"
    and "notificationDebounce (snd (handle f (ThrownError e) ctx st)) =
           debounceKey e # notificationDebounce st"
  using assms by (simp_all add: handle_def show_notification_Error notify_def Let_def)

lemma handle_shows_nothing:
  assumes "silent ctx = Some True \<or> showNotification ctx = Some False \<or>
    debounceKey e \<in> set (notificationDebounce st)"
  shows "notices (snd (handle f (ThrownError e) ctx st)) = notices st"
    and "notificationDebounce (snd (handle f (ThrownError e) ctx st)) = notificationDebounce st"
  using assms by (auto simp: handle_def show_notification_Error notify_def Let_def)

lemma logError_warn:
  "logError e op = Pretty PrettyWarn Warning (operationText op) \<longleftrightarrow>
     (\<exists>a. appFields e = Some a \<and> errSeverity a = SEVERITY_MEDIUM)"
  by (auto simp: logError_def split: option.splits ErrorSeverity.splits)

text \<open>
  C9 (as the code has it), for \<open>execute\<close> of utils/ErrorHandler.ts. When the wrapped function
  returns, \<open>execute\<close> resolves with its value and changes nothing. When it throws an \<open>Error\<close>
  object, \<open>execute\<close> never rejects and resolves with \<open>undefined\<close>, whatever the context holds,
  a \<open>fallback\<close> included. The error goes to \<open>handle\<close>, which does nothing for a silent
  context. Otherwise it makes one logger call, chosen by the error's severity: \<open>prettyError\<close>
  for a plain \<open>Error\<close>, the warning only for an \<open>AppError\<close> of medium severity. Then it shows
  one notice and puts the error's key into the debounce map, unless \<open>showNotification\<close> is
  false or the key is in the map already; in these cases, and for a silent context, the
  notices and the map stay as they are.
\<close>

theorem execute_rules:
  "execute f (Returned v) ctx st = (Resolved (Some v), st) \<and>
   fst (execute f (Threw (ThrownError e)) ctx st) = Resolved None \<and>
   (silent ctx = Some True \<longrightarrow>
      execute f (Threw (ThrownError e)) ctx st = (Resolved None, st)) \<and>
   (silent ctx \<noteq> Some True \<longrightarrow>
      logCalls (snd (execute f (Threw (ThrownError e)) ctx st)) =
        logCalls st @ [logError e (operation ctx)]) \<and>
   (appFields e = None \<longrightarrow>
      logError e (operation ctx) = Pretty PrettyError PlainError (operationText (operation ctx))) \<and>
   (logError e (operation ctx) = Pretty PrettyWarn Warning (operationText (operation ctx)) \<longleftrightarrow>
      (\<exists>a. appFields e = Some a \<and> errSeverity a = SEVERITY_MEDIUM)) \<and>
   (silent ctx \<noteq> Some True \<and> showNotification ctx \<noteq> Some False \<and>
    debounceKey e \<notin> set (notificationDebounce st) \<longrightarrow>
      notices (snd (execute f (Threw (ThrownError e)) ctx st)) =
        notices st @ [shownNotice f e (customMessage ctx)] \<and>
      notificationDebounce (snd (execute f (Threw (ThrownError e)) ctx st)) =
        debounceKey e # notificationDebounce st) \<and>
   (silent ctx = Some True \<or> showNotification ctx = Some False \<or>
    debounceKey e \<in> set (notificationDebounce st) \<longrightarrow>
      notices (snd (execute f (Threw (ThrownError e)) ctx st)) = notices st \<and>
      notificationDebounce (snd (execute f (Threw (ThrownError e)) ctx st)) =
        notificationDebounce st)"
proof -
  let ?x = "execute f (Threw (ThrownError e)) ctx st"
  have x: "?x = (Resolved None, snd (handle f (ThrownError e) ctx st))"
    by (rule execute_Error)
  have a: "execute f (Returned v) ctx st = (Resolved (Some v), st)"
    by (simp add: execute_def)
  have b: "fst ?x = Resolved None"
    by (simp add: x)
  have c: "silent ctx = Some True \<longrightarrow> ?x = (Resolved None, st)"
    by (simp add: x handle_def)
  have d: "silent ctx \<noteq> Some True \<longrightarrow>
      logCalls (snd ?x) = logCalls st @ [logError e (operation ctx)]"
    by (simp add: x handle_logs)
  have g: "appFields e = None \<longrightarrow>
      logError e (operation ctx) = Pretty PrettyError PlainError (operationText (operation ctx))"
    by (simp add: logError_def)
  have h: "logError e (operation ctx) = Pretty PrettyWarn Warning (operationText (operation ctx)) \<longleftrightarrow>
      (\<exists>a. appFields e = Some a \<and> errSeverity a = SEVERITY_MEDIUM)"
    by (rule logError_warn)
  have i: "silent ctx \<noteq> Some True \<and> showNotification ctx \<noteq> Some False \<and>
    debounceKey e \<notin> set (notificationDebounce st) \<longrightarrow>
      notices (snd ?x) = notices st @ [shownNotice f e (customMessage ctx)] \<and>
      notificationDebounce (snd ?x) = debounceKey e # notificationDebounce st"
    using handle_shows [of ctx e st f] by (simp add: x)
  have j: "silent ctx = Some True \<or> showNotification ctx = Some False \<or>
    debounceKey e \<in> set (notificationDebounce st) \<longrightarrow>
      notices (snd ?x) = notices st \<and> notificationDebounce (snd ?x) = notificationDebounce st"
    using handle_shows_nothing [of ctx e st f] by (simp add: x)
  from a b c d g h i j show ?thesis by blast
qed

theorem execute_rules_witness:
  "silent sampleContext \<noteq> Some True \<and> showNotification sampleContext \<noteq> Some False \<and>
   execute errMessage (Returned [''row'']) sampleContext emptyHandler =
     (Resolved (Some [''row'']), emptyHandler) \<and>
   execute errMessage (Threw (ThrownError sampleError)) sampleContext emptyHandler =
     (Resolved None,
      \<lparr>logCalls = [Pretty PrettyError PlainError (Some ''queryChat'')],
       notificationDebounce = [Some ''request failed''],
       notices = [ElMessage ''request failed'']\<rparr>) \<and>
   execute errMessage (Threw (ThrownError sampleError)) sampleContext
       (emptyHandler\<lparr>notificationDebounce := [Some ''request failed'']\<rparr>) =
     (Resolved None,
      \<lparr>logCalls = [Pretty PrettyError PlainError (Some ''queryChat'')],
       notificationDebounce = [Some ''request failed''],
       notices = []\<rparr>) \<and>
   execute errMessage (Threw (ThrownError sampleError)) (sampleContext\<lparr>silent := Some True\<rparr>)
       emptyHandler = (Resolved None, emptyHandler)"
proof -
  let ?pending = "emptyHandler\<lparr>notificationDebounce := [Some ''request failed'']\<rparr>"
  have s: "silent sampleContext \<noteq> Some True" "showNotification sampleContext \<noteq> Some False"
    "customMessage sampleContext = None" "appFields sampleError = None"
    by (simp_all add: sampleContext_def sampleError_def)
  have l: "logError sampleError (operation sampleContext) =
      Pretty PrettyError PlainError (Some ''queryChat'')"
    by (simp add: logError_def sampleError_def sampleContext_def operationText_def)
  have k: "debounceKey sampleError = Some ''request failed''"
    "shownNotice errMessage sampleError None = ElMessage ''request failed''"
    by (simp_all add: debounceKey_def shownNotice_def sampleError_def)
  have e: "st = \<lparr>logCalls = logCalls st, notificationDebounce = notificationDebounce st,
      notices = notices st\<rparr>" for st :: HandlerState
    by simp
  have x1: "execute errMessage (Threw (ThrownError sampleError)) sampleContext emptyHandler =
     (Resolved None,
      \<lparr>logCalls = [Pretty PrettyError PlainError (Some ''queryChat'')],
       notificationDebounce = [Some ''request failed''],
       notices = [ElMessage ''request failed'']\<rparr>)"
    using execute_rules [of errMessage "[''row'']" sampleContext emptyHandler sampleError] s l k
    by (subst prod_eq_iff, subst (2) e) (simp add: emptyHandler_def)
  have x2: "execute errMessage (Threw (ThrownError sampleError)) sampleContext ?pending =
     (Resolved None,
      \<lparr>logCalls = [Pretty PrettyError PlainError (Some ''queryChat'')],
       notificationDebounce = [Some ''request failed''],
       notices = []\<rparr>)"
    using execute_rules [of errMessage "[''row'']" sampleContext ?pending sampleError] s l k
    by (subst prod_eq_iff, subst (2) e) (simp add: emptyHandler_def)
  have x3: "execute errMessage (Threw (ThrownError sampleError)) (sampleContext\<lparr>silent := Some True\<rparr>)
       emptyHandler = (Resolved None, emptyHandler)"
    using execute_rules [of errMessage "[''row'']" "sampleContext\<lparr>silent := Some True\<rparr>"
        emptyHandler sampleError]
    by simp
  show ?thesis
    using execute_rules [of errMessage "[''row'']" sampleContext emptyHandler sampleError] s x1 x2 x3
    by simp
qed

text \<open>
  C9 as the specification states it fails: the context carries the fallback \<open>[cached]\<close>, the
  function throws, and \<open>execute\<close> resolves with \<open>undefined\<close>, not with the fallback; what it
  logs is an error, not a warning.
\<close>

theorem execute_fallback_counterexample:
  "fallback sampleContext = Some [''cached''] \<and>
   execute errMessage (Threw (ThrownError sampleError)) sampleContext emptyHandler =
     (Resolved None,
      \<lparr>logCalls = [Pretty PrettyError PlainError (Some ''queryChat'')],
       notificationDebounce = [Some ''request failed''],
       notices = [ElMessage ''request failed'']\<rparr>)"
  by (simp add: execute_def handle_def show_notification_def notify_def logError_def
      operationText_def sampleContext_def sampleError_def emptyHandler_def)

subsection \<open>The restricted JSON parser accepts what its serializer writes\<close>

lemma is_digit_digit_char: "k < 10 \<Longrightarrow> is_digit (digit_char k)"
  unfolding is_digit_def digit_char_def by (rule nth_mem) simp

lemma digit_char_zero: "k < 10 \<Longrightarrow> digit_char k = CHR ''0'' \<longleftrightarrow> k = 0"
proof -
  assume k: "k < 10"
  have d: "distinct ''0123456789''" by simp
  have "''0123456789'' ! k = ''0123456789'' ! 0 \<longleftrightarrow> k = 0"
    using d k by (subst nth_eq_iff_index_eq) simp_all
  then show ?thesis by (simp add: digit_char_def)
qed

lemma dec_digits: "c \<in> set (dec n) \<Longrightarrow> is_digit c"
proof (induction n arbitrary: c rule: dec.induct)
  case (1 n)
  show ?case
  proof (cases "n < 10")
    case True
    with "1.prems" show ?thesis by (simp add: dec.simps [of n] is_digit_digit_char)
  next
    case False
    with "1.prems" have "c \<in> set (dec (n div 10)) \<or> c = digit_char (n mod 10)"
      by (auto simp: dec.simps [of n])
    with False "1.IH" show ?thesis
      by (auto simp: is_digit_digit_char)
  qed
qed

lemma dec_nonempty: "dec n \<noteq> []"
  by (simp add: dec.simps [of n])

lemma dec_leading_zero: "hd (dec n) = CHR ''0'' \<Longrightarrow> length (dec n) = 1"
proof (induction n rule: dec.induct)
  case (1 n)
  show ?case
  proof (cases "n < 10")
    case True
    then show ?thesis by (simp add: dec.simps [of n])
  next
    case False
    then have d: "dec n = dec (n div 10) @ [digit_char (n mod 10)]"
      by (simp add: dec.simps [of n])
    with "1.prems" have h: "hd (dec (n div 10)) = CHR ''0''"
      by (simp add: dec_nonempty)
    with "1.IH" False have l: "length (dec (n div 10)) = 1" by simp
    have z: "n div 10 < 10 \<Longrightarrow> n div 10 = 0"
      using h by (simp add: dec.simps [of "n div 10"] digit_char_zero)
    have "n div 10 < 10"
    proof (rule ccontr)
      assume "\<not> n div 10 < 10"
      then have "dec (n div 10) = dec (n div 10 div 10) @ [digit_char (n div 10 mod 10)]"
        by (simp add: dec.simps [of "n div 10"])
      with l dec_nonempty [of "n div 10 div 10"] show False
        by (cases "dec (n div 10 div 10)") simp_all
    qed
    with z False show ?thesis by simp
  qed
qed

lemma takeWhile_digits:
  assumes "\<forall>c\<in>set ds. is_digit c" and "rest = [] \<or> \<not> is_digit (hd rest)"
  shows "takeWhile is_digit (ds @ rest) = ds" and "dropWhile is_digit (ds @ rest) = rest"
proof -
  have t: "takeWhile is_digit rest = []"
    using assms(2) by (simp add: takeWhile_eq_Nil_iff)
  have d: "dropWhile is_digit rest = rest"
    using assms(2) by (simp add: dropWhile_eq_self_iff)
  show "takeWhile is_digit (ds @ rest) = ds"
    using assms(1) t by (simp add: takeWhile_append2)
  show "dropWhile is_digit (ds @ rest) = rest"
    using assms(1) d by (simp add: dropWhile_append2)
qed

lemma parse_number_dec:
  assumes "rest = [] \<or> \<not> is_digit (hd rest)"
  shows "\<exists>v. parse_number (dec n @ rest) = Some (v, rest)"
proof -
  have a: "\<forall>c\<in>set (dec n). is_digit c" by (simp add: dec_digits)
  obtain c cs where c: "dec n = c # cs" using dec_nonempty [of n] by (cases "dec n") auto
  have "is_digit c" using a c by simp
  then have m: "c \<noteq> CHR ''-''" by (auto simp: is_digit_def)
  have z: "\<not> (hd (dec n) = CHR ''0'' \<and> 1 < length (dec n))"
    using dec_leading_zero [of n] by auto
  show ?thesis
    using takeWhile_digits [OF a assms] m z dec_nonempty [of n] c
    by (simp add: parse_number_def Let_def)
qed

lemma parse_number_show_int:
  assumes "rest = [] \<or> \<not> is_digit (hd rest)"
  shows "\<exists>v. parse_number (show_int i @ rest) = Some (v, rest)"
proof (cases "i < 0")
  case False
  then show ?thesis using parse_number_dec [OF assms] by (simp add: show_int_def)
next
  case True
  have a: "\<forall>c\<in>set (dec (nat (- i))). is_digit c" by (simp add: dec_digits)
  have z: "\<not> (hd (dec (nat (- i))) = CHR ''0'' \<and> 1 < length (dec (nat (- i))))"
    using dec_leading_zero [of "nat (- i)"] by auto
  show ?thesis
    using True takeWhile_digits [OF a assms] z dec_nonempty [of "nat (- i)"]
    by (simp add: parse_number_def show_int_def Let_def)
qed

lemma show_int_first:
  "\<exists>c cs. show_int i = c # cs \<and> (c = CHR ''-'' \<or> is_digit c)"
proof (cases "i < 0")
  case True
  then show ?thesis by (simp add: show_int_def)
next
  case False
  obtain c cs where c: "dec (nat i) = c # cs"
    using dec_nonempty [of "nat i"] by (cases "dec (nat i)") auto
  then have "is_digit c" using dec_digits [of c "nat i"] by simp
  with c False show ?thesis by (simp add: show_int_def)
qed

lemma hex_val_hex_char: "k < 16 \<Longrightarrow> \<exists>x. hex_val (hex_char k) = Some x"
proof -
  assume "k < 16"
  then have "hex_char k \<in> set ''0123456789abcdef''"
    unfolding hex_char_def by (intro nth_mem) simp
  then have "is_digit (hex_char k) \<or> hex_char k \<in> set ''abcdef''"
    by (auto simp: is_digit_def)
  then show ?thesis by (auto simp: hex_val_def)
qed

lemma hex_val_zero: "hex_val (CHR ''0'') = Some 0"
  by (simp add: hex_val_def is_digit_def digit_val_def)

lemma parse_chars_escape_char:
  assumes "parse_chars t = Some (s0, r)"
  shows "\<exists>s'. parse_chars (escape_char c @ t) = Some (s', r)"
proof -
  consider (special) "c \<in> {CHR 0x22, CHR 0x5C, CHR 0x08, CHR 0x0C, CHR 0x0A, CHR 0x0D, CHR 0x09}"
    | (control) "c \<notin> {CHR 0x22, CHR 0x5C, CHR 0x08, CHR 0x0C, CHR 0x0A, CHR 0x0D, CHR 0x09}"
        "(of_char c :: nat) < 32"
    | (plain) "c \<notin> {CHR 0x22, CHR 0x5C, CHR 0x08, CHR 0x0C, CHR 0x0A, CHR 0x0D, CHR 0x09}"
        "\<not> (of_char c :: nat) < 32"
    by blast
  then show ?thesis
  proof cases
    case special
    then show ?thesis using assms by (auto simp: escape_char_def)
  next
    case control
    have "(of_char c :: nat) div 16 < 16" using control(2) by simp
    then obtain x where x: "hex_val (hex_char (of_char c div 16)) = Some x"
      using hex_val_hex_char by blast
    have "(of_char c :: nat) mod 16 < 16" by simp
    then obtain y where y: "hex_val (hex_char (of_char c mod 16)) = Some y"
      using hex_val_hex_char by blast
    show ?thesis
      using control assms x y by (simp add: escape_char_def hex_val_zero)
  next
    case plain
    then show ?thesis using assms by (simp add: escape_char_def)
  qed
qed

lemma parse_chars_quote:
  "\<exists>s'. parse_chars (concat (map escape_char s) @ CHR 0x22 # rest) = Some (s', rest)"
proof (induction s)
  case Nil
  show ?case by simp
next
  case (Cons c s)
  then obtain s0 where "parse_chars (concat (map escape_char s) @ CHR 0x22 # rest) = Some (s0, rest)"
    by blast
  from parse_chars_escape_char [OF this, of c] show ?case by simp
qed

lemma delim_not_digit: "delim rest \<Longrightarrow> rest = [] \<or> \<not> is_digit (hd rest)"
  by (auto simp: delim_def is_digit_def)

lemma delim_Cons [simp]:
  "delim (CHR '','' # r)" "delim (CHR '']'' # r)" "delim (CHR ''}'' # r)"
  by (simp_all add: delim_def)

lemma skip_ws_Cons: "\<not> is_ws c \<Longrightarrow> skip_ws (c # cs) = c # cs"
  by (simp add: skip_ws_def)

lemma is_digit_other:
  "is_digit c \<Longrightarrow> \<not> is_ws c \<and> c \<notin> {CHR ''n'', CHR ''t'', CHR ''f'', CHR 0x22, CHR ''['', CHR ''{'',
     CHR '']'', CHR ''}''}"
  by (auto simp: is_digit_def is_ws_def)

lemma stringify_first:
  "\<exists>c cs. mini_stringify v = c # cs \<and> \<not> is_ws c \<and> c \<noteq> CHR '']'' \<and> c \<noteq> CHR ''}''"
proof (cases v)
  case (JNum i)
  obtain c cs where c: "show_int i = c # cs" "c = CHR ''-'' \<or> is_digit c"
    using show_int_first by blast
  have "\<not> is_ws c \<and> c \<noteq> CHR '']'' \<and> c \<noteq> CHR ''}''"
  proof (cases "is_digit c")
    case True
    then show ?thesis using is_digit_other [of c] by blast
  next
    case False
    with c(2) have "c = CHR ''-''" by blast
    then show ?thesis by (simp add: is_ws_def)
  qed
  with c(1) JNum show ?thesis by simp
next
  case JUndefined then show ?thesis by (simp add: is_ws_def)
next
  case JNull then show ?thesis by (simp add: is_ws_def)
next
  case (JBool b) then show ?thesis by (simp add: is_ws_def)
next
  case (JStr s) then show ?thesis by (simp add: is_ws_def quote_def)
next
  case (JArr vs) then show ?thesis by (simp add: is_ws_def)
next
  case (JObj ms) then show ?thesis by (simp add: is_ws_def)
qed

lemma parse_value_literal:
  assumes "0 < n"
  shows "parse_value n (''null'' @ rest) = Some (JNull, rest)"
    and "parse_value n (''true'' @ rest) = Some (JBool True, rest)"
    and "parse_value n (''false'' @ rest) = Some (JBool False, rest)"
proof -
  obtain m where n: "n = Suc m" using assms by (cases n) auto
  show "parse_value n (''null'' @ rest) = Some (JNull, rest)"
    by (simp add: n skip_ws_def is_ws_def)
  show "parse_value n (''true'' @ rest) = Some (JBool True, rest)"
    by (simp add: n skip_ws_def is_ws_def)
  show "parse_value n (''false'' @ rest) = Some (JBool False, rest)"
    by (simp add: n skip_ws_def is_ws_def)
qed

lemma parse_value_other:
  assumes "\<not> is_ws c" and "c \<noteq> CHR ''n''" and "c \<noteq> CHR ''t''" and "c \<noteq> CHR ''f''"
    and "c \<noteq> CHR 0x22" and "c \<noteq> CHR ''[''" and "c \<noteq> CHR ''{''"
  shows "parse_value (Suc m) (c # cs) = parse_number (c # cs)"
  using assms by (simp add: skip_ws_Cons)

lemma parse_value_number:
  assumes "0 < n" and "delim rest"
  shows "\<exists>v. parse_value n (show_int i @ rest) = Some (v, rest)"
proof -
  obtain m where n: "n = Suc m" using assms(1) by (cases n) auto
  obtain c cs where c: "show_int i = c # cs" "c = CHR ''-'' \<or> is_digit c"
    using show_int_first by blast
  have o: "\<not> is_ws c \<and> c \<noteq> CHR ''n'' \<and> c \<noteq> CHR ''t'' \<and> c \<noteq> CHR ''f'' \<and> c \<noteq> CHR 0x22 \<and>
      c \<noteq> CHR ''['' \<and> c \<noteq> CHR ''{''"
  proof (cases "is_digit c")
    case True
    then show ?thesis using is_digit_other [of c] by blast
  next
    case False
    with c(2) have "c = CHR ''-''" by blast
    then show ?thesis by (simp add: is_ws_def)
  qed
  have "parse_value (Suc m) (c # (cs @ rest)) = parse_number (c # (cs @ rest))"
    using o by (intro parse_value_other) blast+
  then have "parse_value n (show_int i @ rest) = parse_number (show_int i @ rest)"
    unfolding n c(1) by simp
  then show ?thesis
    using parse_number_show_int [OF delim_not_digit [OF assms(2)], of i] by simp
qed

lemma parse_value_string:
  assumes "0 < n"
  shows "\<exists>v. parse_value n (quote s @ rest) = Some (v, rest)"
proof -
  obtain m where n: "n = Suc m" using assms(1) by (cases n) auto
  obtain s' where "parse_chars (concat (map escape_char s) @ CHR 0x22 # rest) = Some (s', rest)"
    using parse_chars_quote by blast
  then show ?thesis
    by (simp add: n quote_def skip_ws_def is_ws_def)
qed

lemma acceptedD:
  "accepted v \<Longrightarrow> delim rest \<Longrightarrow> 2 * length (mini_stringify v @ rest) + 1 \<le> n \<Longrightarrow>
     \<exists>v'. parse_value n (mini_stringify v @ rest) = Some (v', rest)"
  by (simp add: accepted_def)

lemma stringify_length: "0 < length (mini_stringify v)"
  using stringify_first [of v] by auto

lemma parse_elements_join:
  assumes "\<forall>v\<in>set vs. accepted v" and "vs \<noteq> []"
    and "2 * length (join '','' (map mini_stringify vs) @ CHR '']'' # rest) + 2 \<le> n"
  shows "\<exists>vs'. parse_elements n (join '','' (map mini_stringify vs) @ CHR '']'' # rest) =
           Some (vs', rest)"
  using assms
proof (induction vs arbitrary: n)
  case Nil
  then show ?case by simp
next
  case (Cons v ws)
  obtain m where n: "n = Suc m" using Cons.prems(3) by (cases n) auto
  have av: "accepted v" using Cons.prems(1) by simp
  show ?case
  proof (cases ws)
    case Nil
    have "\<exists>v'. parse_value m (mini_stringify v @ CHR '']'' # rest) = Some (v', CHR '']'' # rest)"
      using Cons.prems(3) by (intro acceptedD [OF av]) (simp_all add: n Nil)
    then show ?thesis
      by (auto simp: n Nil skip_ws_def is_ws_def)
  next
    case (Cons w ws')
    let ?tail = "join '','' (map mini_stringify ws) @ CHR '']'' # rest"
    have j: "join '','' (map mini_stringify (v # ws)) @ CHR '']'' # rest =
        mini_stringify v @ CHR '','' # ?tail"
      by (simp add: Cons)
    have "\<exists>v'. parse_value m (mini_stringify v @ CHR '','' # ?tail) = Some (v', CHR '','' # ?tail)"
      using Cons.prems(3) unfolding j by (intro acceptedD [OF av]) (simp_all add: n)
    then obtain v' where v': "parse_value m (mini_stringify v @ CHR '','' # ?tail) =
        Some (v', CHR '','' # ?tail)" by blast
    have "2 * length ?tail + 2 \<le> m"
      using Cons.prems(3) stringify_length [of v] unfolding j by (simp add: n)
    then obtain vs' where vs': "parse_elements m ?tail = Some (vs', rest)"
      using Cons.IH [of m] Cons.prems(1) Cons by auto
    show ?thesis
      unfolding j by (simp add: n v' vs' skip_ws_def is_ws_def)
  qed
qed

lemma parse_members_step:
  assumes "parse_chars r0 = Some (k, CHR '':'' # r2)"
  shows "parse_members (Suc m) (CHR 0x22 # r0) =
     (case parse_value m r2 of
        None \<Rightarrow> None
      | Some (v, r3) \<Rightarrow>
          (case skip_ws r3 of
             [] \<Rightarrow> None
           | d # r4 \<Rightarrow>
               if d = CHR ''}'' then Some ([(k, v)], r4)
               else if d = CHR '','' then
                 map_option (\<lambda>(ms, r5). ((k, v) # ms, r5)) (parse_members m r4)
               else None))"
  using assms by (simp add: skip_ws_def is_ws_def)

lemma parse_members_join:
  assumes "\<forall>(k, v)\<in>set ms. accepted v" and "ms \<noteq> []"
    and "2 * length (join '','' (map member_text ms) @ CHR ''}'' # rest) + 2 \<le> n"
  shows "\<exists>ms'. parse_members n (join '','' (map member_text ms) @ CHR ''}'' # rest) =
           Some (ms', rest)"
  using assms
proof (induction ms arbitrary: n)
  case Nil
  then show ?case by simp
next
  case (Cons kv ws)
  obtain k v where kv: "kv = (k, v)" by (cases kv)
  obtain m where n: "n = Suc m" using Cons.prems(3) by (cases n) auto
  have av: "accepted v" using Cons.prems(1) kv by simp
  define after where "after = (if ws = [] then CHR ''}'' # rest
     else CHR '','' # join '','' (map member_text ws) @ CHR ''}'' # rest)"
  have j: "join '','' (map member_text (kv # ws)) @ CHR ''}'' # rest =
      CHR 0x22 # concat (map escape_char k) @ CHR 0x22 # CHR '':'' # mini_stringify v @ after"
    by (cases ws) (simp_all add: after_def kv member_text_def quote_def)
  obtain k' where k': "parse_chars (concat (map escape_char k) @ CHR 0x22 # CHR '':'' #
      mini_stringify v @ after) = Some (k', CHR '':'' # mini_stringify v @ after)"
    using parse_chars_quote by blast
  have d: "delim after" by (simp add: after_def)
  have "2 * length (mini_stringify v @ after) + 1 \<le> m"
    using Cons.prems(3) unfolding j by (simp add: n)
  then obtain v' where v': "parse_value m (mini_stringify v @ after) = Some (v', after)"
    using acceptedD [OF av d] by blast
  have step: "parse_members n (join '','' (map member_text (kv # ws)) @ CHR ''}'' # rest) =
      (case skip_ws after of
         [] \<Rightarrow> None
       | d # r4 \<Rightarrow>
           if d = CHR ''}'' then Some ([(k', v')], r4)
           else if d = CHR '','' then
             map_option (\<lambda>(ms, r5). ((k', v') # ms, r5)) (parse_members m r4)
           else None)"
    unfolding j n parse_members_step [OF k'] v' by simp
  show ?case
  proof (cases ws)
    case Nil
    then have "after = CHR ''}'' # rest" by (simp add: after_def)
    then show ?thesis
      unfolding step by (simp add: skip_ws_def is_ws_def)
  next
    case (Cons w ws')
    let ?tail = "join '','' (map member_text ws) @ CHR ''}'' # rest"
    have a: "after = CHR '','' # ?tail" by (simp add: after_def Cons)
    have "2 * length ?tail + 2 \<le> m"
      using Cons.prems(3) unfolding j a by (simp add: n)
    then obtain ms' where ms': "parse_members m ?tail = Some (ms', rest)"
      using Cons.IH [of m] Cons.prems(1) Cons by auto
    show ?thesis
      unfolding step a by (simp add: ms' skip_ws_def is_ws_def)
  qed
qed

lemma accepted_array:
  assumes "\<forall>v\<in>set vs. accepted v"
  shows "accepted (JArr vs)"
  unfolding accepted_def
proof (intro allI impI)
  fix n rest
  assume d: "delim rest" and f: "2 * length (mini_stringify (JArr vs) @ rest) + 1 \<le> n"
  obtain m where n: "n = Suc m" using f by (cases n) auto
  show "\<exists>v'. parse_value n (mini_stringify (JArr vs) @ rest) = Some (v', rest)"
  proof (cases vs)
    case Nil
    then show ?thesis by (simp add: n skip_ws_def is_ws_def)
  next
    case (Cons w ws)
    let ?body = "join '','' (map mini_stringify vs) @ CHR '']'' # rest"
    obtain c cs where c: "mini_stringify w = c # cs" "\<not> is_ws c" "c \<noteq> CHR '']''"
      using stringify_first [of w] by blast
    obtain b where b: "?body = c # b"
      using c(1) Cons by (cases ws) simp_all
    have "2 * length ?body + 2 \<le> m" using f by (simp add: n)
    then obtain vs' where vs': "parse_elements m ?body = Some (vs', rest)"
      using parse_elements_join [OF assms, of rest m] Cons by auto
    have "parse_value (Suc m) (CHR ''['' # ?body) =
        map_option (\<lambda>(vs, r''). (JArr vs, r'')) (parse_elements m ?body)"
      unfolding b using c(2,3) by (simp add: skip_ws_def is_ws_def)
    then show ?thesis by (simp add: n vs')
  qed
qed

lemma accepted_object:
  assumes "\<forall>(k, v)\<in>set ms. accepted v"
  shows "accepted (JObj ms)"
  unfolding accepted_def
proof (intro allI impI)
  fix n rest
  assume d: "delim rest" and f: "2 * length (mini_stringify (JObj ms) @ rest) + 1 \<le> n"
  obtain m where n: "n = Suc m" using f by (cases n) auto
  define ms' where "ms' = filter (\<lambda>(k, v). v \<noteq> JUndefined) ms"
  have a: "\<forall>(k, v)\<in>set ms'. accepted v" using assms by (auto simp: ms'_def)
  let ?body = "join '','' (map member_text ms') @ CHR ''}'' # rest"
  have s: "mini_stringify (JObj ms) @ rest = CHR ''{'' # ?body"
    by (simp add: ms'_def member_text_def)
  show "\<exists>v'. parse_value n (mini_stringify (JObj ms) @ rest) = Some (v', rest)"
  proof (cases ms')
    case Nil
    then show ?thesis unfolding s by (simp add: n skip_ws_def is_ws_def)
  next
    case (Cons w ws)
    obtain b where b: "?body = CHR 0x22 # b"
      using Cons by (cases w; cases ws) (simp_all add: member_text_def quote_def)
    have "2 * length ?body + 2 \<le> m" using f unfolding s by (simp add: n)
    then obtain r where r: "parse_members m ?body = Some (r, rest)"
      using parse_members_join [OF a, of rest m] Cons by auto
    have "parse_value (Suc m) (CHR ''{'' # ?body) =
        map_option (\<lambda>(ms, r''). (JObj ms, r'')) (parse_members m ?body)"
      unfolding b by (simp add: skip_ws_def is_ws_def)
    then show ?thesis unfolding s by (simp add: n r)
  qed
qed

lemma acceptedI:
  assumes "\<And>n rest. delim rest \<Longrightarrow> 0 < n \<Longrightarrow>
     \<exists>v'. parse_value n (mini_stringify v @ rest) = Some (v', rest)"
  shows "accepted v"
  unfolding accepted_def
proof (intro allI impI)
  fix n rest
  assume "delim rest" and "2 * length (mini_stringify v @ rest) + 1 \<le> n"
  then show "\<exists>v'. parse_value n (mini_stringify v @ rest) = Some (v', rest)"
    by (intro assms) simp_all
qed

lemma accepted_all: "accepted v"
proof (induction v)
  case JUndefined
  show ?case using parse_value_literal(1) by (intro acceptedI) simp
next
  case JNull
  show ?case using parse_value_literal(1) by (intro acceptedI) simp
next
  case (JBool b)
  show ?case using parse_value_literal(2,3) by (intro acceptedI) simp
next
  case (JNum i)
  show ?case using parse_value_number by (intro acceptedI) simp
next
  case (JStr s)
  show ?case using parse_value_string by (intro acceptedI) simp
next
  case (JArr vs)
  then show ?case by (intro accepted_array) simp
next
  case (JObj ms)
  then show ?case by (intro accepted_object) auto
qed

lemma mini_parse_stringify: "\<exists>v'. mini_parse (mini_stringify v) = Some v'"
proof -
  have "\<exists>v'. parse_value (2 * length (mini_stringify v) + 1) (mini_stringify v @ []) = Some (v', [])"
    by (intro acceptedD [OF accepted_all]) (simp_all add: delim_def)
  then show ?thesis by (auto simp: mini_parse_def skip_ws_def)
qed

subsection \<open>Decoding and encoding a message body\<close>

lemma parseBody_object: "\<exists>ms. parseBody J raw = JObj ms"
  by (simp add: parseBody_def split: jsval.splits option.splits)

lemma bodyClass_unknown: "ct \<notin> set (knownContentTypes t) \<Longrightarrow> bodyClass t ct = None"
  by (simp add: bodyClass_def knownContentTypes_def)

lemma mini_parse_oops: "mini_parse ''{oops'' = None"
  by code_simp

lemma mini_parse_empty_object: "mini_parse ''{}'' = Some (JObj [])"
  by code_simp

lemma trim_oops: "trim ''{oops'' = ''{oops''"
  by (simp add: trim_def js_space_def)

lemma mini_parse_vt_object: "mini_parse (CHR 0x0B # ''{}'') = None"
  by code_simp

lemma mini_parse_nbsp_object: "mini_parse (CHR 0xA0 # ''{}'') = None"
  by code_simp

lemma trim_vt_object: "trim (CHR 0x0B # ''{}'') = ''{}''"
  by (simp add: trim_def js_space_def)

lemma trim_nbsp_object: "trim (CHR 0xA0 # ''{}'') = ''{}''"
  by (simp add: trim_def js_space_def)

text \<open>
  C3 (as the code has it). \<open>parseBody\<close> takes no content type and never fails: it always
  returns an object. What it parses is \<open>raw.trim()\<close>: for a string whose trimmed text the
  parser refuses it returns \<open>{ text: raw }\<close>, with \<open>raw\<close> untrimmed; for a string whose trimmed
  text parses it returns the parsed object, \<open>{ parts: ... }\<close> around a parsed array, and
  \<open>{ text: String(parsed) }\<close> for any other parsed value, also when \<open>raw\<close> itself is not valid
  JSON. The decode that fails is \<open>createMessageBody(raw, contentType)\<close>: with an \<open>Error\<close> for a
  string that is not valid JSON, and, for a body that is not such a string, with an \<open>Error\<close>
  for a content type without a mapping.
\<close>

theorem decode_failure_rules:
  "(\<exists>ms. parseBody J raw = JObj ms) \<and>
   (parse J (trim s) = None \<longrightarrow> parseBody J (JStr s) = JObj [(''text'', JStr s)]) \<and>
   (parse J (trim s) = Some p \<longrightarrow>
      parseBody J (JStr s) =
        (case p of
           JArr vs \<Rightarrow> JObj [(''parts'', JArr vs)]
         | JObj ms \<Rightarrow> JObj ms
         | _ \<Rightarrow> JObj [(''text'', JStr (String_of p))])) \<and>
   (parse J s = None \<longrightarrow> createMessageBody J t (JStr s) ct = Inl (InvalidJSON s)) \<and>
   (ct \<notin> set (knownContentTypes t) \<and> (\<forall>s'. raw = JStr s' \<longrightarrow> parse J s' \<noteq> None) \<longrightarrow>
      createMessageBody J t raw ct = Inl (UnknownContentType ct))"
proof -
  have a: "\<exists>ms. parseBody J raw = JObj ms" by (rule parseBody_object)
  have b: "parse J (trim s) = None \<longrightarrow> parseBody J (JStr s) = JObj [(''text'', JStr s)]"
    by (simp add: parseBody_def)
  have b': "parse J (trim s) = Some p \<longrightarrow>
      parseBody J (JStr s) =
        (case p of
           JArr vs \<Rightarrow> JObj [(''parts'', JArr vs)]
         | JObj ms \<Rightarrow> JObj ms
         | _ \<Rightarrow> JObj [(''text'', JStr (String_of p))])"
    by (simp add: parseBody_def)
  have c: "parse J s = None \<longrightarrow> createMessageBody J t (JStr s) ct = Inl (InvalidJSON s)"
    by (simp add: createMessageBody_def)
  have d: "ct \<notin> set (knownContentTypes t) \<and> (\<forall>s'. raw = JStr s' \<longrightarrow> parse J s' \<noteq> None) \<longrightarrow>
      createMessageBody J t raw ct = Inl (UnknownContentType ct)"
    by (auto simp: createMessageBody_def bodyClass_unknown split: jsval.splits option.splits)
  from a b b' c d show ?thesis by blast
qed

theorem decode_failure_rules_witness:
  "parse miniJSON (trim ''{oops'') = None \<and>
   parseBody miniJSON (JStr ''{oops'') = JObj [(''text'', JStr ''{oops'')] \<and>
   parse miniJSON (CHR 0x0B # ''{}'') = None \<and>
   parse miniJSON (trim (CHR 0x0B # ''{}'')) = Some (JObj []) \<and>
   parseBody miniJSON (JStr (CHR 0x0B # ''{}'')) = JObj [] \<and>
   parse miniJSON (CHR 0xA0 # ''{}'') = None \<and>
   parseBody miniJSON (JStr (CHR 0xA0 # ''{}'')) = JObj [] \<and>
   createMessageBody miniJSON sampleCodes (JStr ''{oops'') TEXT = Inl (InvalidJSON ''{oops'') \<and>
   createMessageBody miniJSON sampleCodes (JStr (CHR 0x0B # ''{}'')) TEXT =
     Inl (InvalidJSON (CHR 0x0B # ''{}'')) \<and>
   77 \<notin> set (knownContentTypes sampleCodes) \<and>
   createMessageBody miniJSON sampleCodes (JStr ''{}'') 77 = Inl (UnknownContentType 77)"
proof -
  have p: "parse miniJSON ''{oops'' = None" "parse miniJSON ''{}'' = Some (JObj [])"
    "parse miniJSON (CHR 0x0B # ''{}'') = None" "parse miniJSON (CHR 0xA0 # ''{}'') = None"
    by (simp_all add: miniJSON_def mini_parse_oops mini_parse_empty_object mini_parse_vt_object
        mini_parse_nbsp_object)
  have u: "77 \<notin> set (knownContentTypes sampleCodes)"
    by (simp add: knownContentTypes_def sampleCodes_def TEXT_def IMAGE_def VIDEO_def AUDIO_def
        FILE_def TIP_def RECALL_MESSAGE_def EDIT_MESSAGE_def INVITE_TO_GROUP_def
        JOIN_APPROVE_GROUP_def LOCATION_def COMPLEX_def)
  show ?thesis
    using decode_failure_rules [of miniJSON "JStr ''{}''" "''{oops''" "JObj []" sampleCodes TEXT]
      decode_failure_rules [of miniJSON "JStr ''{}''" "CHR 0x0B # ''{}''" "JObj []" sampleCodes TEXT]
      decode_failure_rules [of miniJSON "JStr ''{}''" "CHR 0xA0 # ''{}''" "JObj []"
        sampleCodes 77]
      p u
    by (simp add: trim_oops trim_vt_object trim_nbsp_object)
qed

text \<open>
  C3 as the specification states it fails: \<open>{oops\<close> is not valid JSON, and \<open>parseBody\<close> returns
  the body \<open>{ text: "{oops" }\<close>.
\<close>

theorem parseBody_invalid_json_counterexample:
  "parse miniJSON (trim ''{oops'') = None \<and>
   parseBody miniJSON (JStr ''{oops'') = JObj [(''text'', JStr ''{oops'')]"
  by (simp add: parseBody_def miniJSON_def trim_oops mini_parse_oops)

text \<open>
  C8. For a JSON whose parser accepts every output of its serializer and the text \<open>{}\<close>:
  encoding the result of an encoding gives that result again; a string that parses is
  returned as it is; an object or an array is encoded as its serialization.
\<close>

theorem stringifyBody_idempotent:
  assumes "\<forall>v. parse J (stringify J v) \<noteq> None" and "parse J ''{}'' \<noteq> None"
  shows "stringifyBody J (JStr (stringifyBody J raw)) = stringifyBody J raw \<and>
    (parse J s \<noteq> None \<longrightarrow> stringifyBody J (JStr s) = s) \<and>
    stringifyBody J (JObj ms) = stringify J (JObj ms) \<and>
    stringifyBody J (JArr vs) = stringify J (JArr vs)"
proof -
  have ok: "parse J (stringifyBody J raw) \<noteq> None"
    using assms by (auto simp: stringifyBody_def split: jsval.splits option.splits)
  have a: "stringifyBody J (JStr (stringifyBody J raw)) = stringifyBody J raw"
    using ok by (auto simp: stringifyBody_def [of J "JStr (stringifyBody J raw)"])
  have b: "parse J s \<noteq> None \<longrightarrow> stringifyBody J (JStr s) = s"
    by (auto simp: stringifyBody_def)
  have c: "stringifyBody J (JObj ms) = stringify J (JObj ms)"
    "stringifyBody J (JArr vs) = stringify J (JArr vs)"
    by (simp_all add: stringifyBody_def)
  from a b c show ?thesis by blast
qed

theorem stringifyBody_idempotent_witness:
  "(\<forall>v. parse miniJSON (stringify miniJSON v) \<noteq> None) \<and> parse miniJSON ''{}'' \<noteq> None \<and>
   stringifyBody miniJSON (JStr (stringifyBody miniJSON (JStr ''{oops''))) =
     stringifyBody miniJSON (JStr ''{oops'') \<and>
   stringifyBody miniJSON (JStr ''{}'') = ''{}'' \<and>
   stringifyBody miniJSON (JObj [(''text'', JStr ''hi'')]) =
     stringify miniJSON (JObj [(''text'', JStr ''hi'')])"
proof -
  have h1: "\<forall>v. parse miniJSON (stringify miniJSON v) \<noteq> None"
    using mini_parse_stringify by (simp add: miniJSON_def)
  have h2: "parse miniJSON ''{}'' \<noteq> None"
    by (simp add: miniJSON_def mini_parse_empty_object)
  show ?thesis
    using stringifyBody_idempotent [OF h1 h2, of "JStr ''{oops''" "''{}''" "[(''text'', JStr ''hi'')]"]
      h1 h2
    by simp
qed

subsection \<open>Recalling a message\<close>



















subsection \<open>Further properties of the stores\<close>

lemma updateWithMsg_defined:
  "\<exists>c ts. updateWithMsg env now cur (Some chat) (Some m) isNew = Some (c, ts)"
  by (simp add: updateWithMsg_def Let_def)

lemma alerts_upsert: "alerts (fst (upsert c st)) = alerts st"
  by (simp add: upsert_def split: option.splits)

lemma alerts_reconciled:
  "alerts
     (case findIdx st1 cid of
        Some idx \<Rightarrow>
          (case updateWithMsg env now (currentChat st1) (Some (chatList st1 ! idx)) (Some m) False of
             None \<Rightarrow> st1
           | Some (chat', tasks) \<Rightarrow>
               st1\<lparr>chatList := (chatList st1)[idx := chat'],
                   idleTasks := idleTasks st1 @ tasks\<rparr>)
      | None \<Rightarrow>
          (case updateWithMsg env now (currentChat st1) (Some chat) (Some m) True of
             None \<Rightarrow> st1
           | Some (chat', tasks) \<Rightarrow>
               fst (upsert chat' (st1\<lparr>idleTasks := idleTasks st1 @ tasks\<rparr>)))) = alerts st1"
proof (cases "findIdx st1 cid")
  case None
  obtain c ts where "updateWithMsg env now (currentChat st1) (Some chat) (Some m) True = Some (c, ts)"
    using updateWithMsg_defined by blast
  with None show ?thesis by (simp add: alerts_upsert)
next
  case (Some idx)
  obtain c ts where
    "updateWithMsg env now (currentChat st1) (Some (chatList st1 ! idx)) (Some m) False = Some (c, ts)"
    using updateWithMsg_defined by blast
  with Some show ?thesis by simp
qed

text \<open>
  The alert sound of \<open>createOrUpdate\<close>: it is played once exactly when the conversation is
  found by the local query, the message was not written by the local user, notifications
  are on and the conversation is not muted; a conversation that had to be fetched from the
  server never sounds.
\<close>

theorem createOrUpdate_alert:
  "alerts (createOrUpdate env now (Some chat) fetched (Some m) st) =
     (if fromId m \<noteq> ownerId env \<and> notificationMessage env \<and> isMute chat = Some 0
      then Suc (alerts st) else alerts st) \<and>
   alerts (createOrUpdate env now None fetched (Some m) st) = alerts st"
proof -
  define st1 where "st1 = (if map_option fromId (Some m) \<noteq> Some (ownerId env)
    then triggerNotify env chat (Some m) st else st)"
  have a: "alerts (createOrUpdate env now (Some chat) fetched (Some m) st) = alerts st1"
    unfolding createOrUpdate_def Let_def option.case st1_def [symmetric]
    by (simp add: alerts_reconciled)
  have b: "alerts st1 =
     (if fromId m \<noteq> ownerId env \<and> notificationMessage env \<and> isMute chat = Some 0
      then Suc (alerts st) else alerts st)"
    by (simp add: st1_def triggerNotify_def)
  have c: "alerts (createOrUpdate env now None fetched (Some m) st) = alerts st"
  proof (cases fetched)
    case None
    then show ?thesis by (simp add: createOrUpdate_def)
  next
    case (Some fc)
    obtain c ts where
      "updateWithMsg env now (currentChat st) (Some fc) (Some m) True = Some (c, ts)"
      using updateWithMsg_defined by blast
    with Some show ?thesis by (simp add: createOrUpdate_def alerts_upsert Let_def)
  qed
  from a b c show ?thesis by simp
qed

text \<open>
  A thrown primitive: when the context is not silent, notifications are not switched off and
  no custom message is given, \<open>handle\<close> throws a \<open>TypeError\<close> while it looks for the message
  to show, and the promise of \<open>execute\<close> rejects.
\<close>

theorem execute_primitive_rejects:
  "silent ctx \<noteq> Some True \<and> showNotification ctx \<noteq> Some False \<and>
   (customMessage ctx = None \<or> customMessage ctx = Some []) \<longrightarrow>
     execute f (Threw (ThrownPrimitive v)) ctx st =
       (Rejected TypeError, st\<lparr>logCalls := logCalls st @ [ConsoleError]\<rparr>)"
  by (auto simp: execute_def handle_def show_notification_def Let_def)

theorem execute_primitive_rejects_witness:
  "silent sampleContext \<noteq> Some True \<and> showNotification sampleContext \<noteq> Some False \<and>
   customMessage sampleContext = None \<and>
   execute errMessage (Threw (ThrownPrimitive (PStr ''window not found''))) sampleContext
     emptyHandler =
     (Rejected TypeError, emptyHandler\<lparr>logCalls := [ConsoleError]\<rparr>)"
proof -
  have h: "silent sampleContext \<noteq> Some True" "showNotification sampleContext \<noteq> Some False"
    "customMessage sampleContext = None"
    by (simp_all add: sampleContext_def)
  show ?thesis
    using execute_primitive_rejects [of sampleContext errMessage "PStr ''window not found''"
        emptyHandler] h
    by (simp add: emptyHandler_def)
qed

text \<open>
  A KICK_FROM_GROUP operation whose target is a member removes that member and nobody else.
\<close>

theorem kick_member_removed:
  "operationType o' = KICK_FROM_GROUP \<and> opGroupId o' \<noteq> [] \<and> targetUserId o' = Some u \<and>
   u \<noteq> [] \<and> members st u \<noteq> None \<longrightarrow>
     applyGroupOperation g now code (Some o') st = st\<lparr>members := (members st)(u := None)\<rparr>"
  by (auto simp: applyGroupOperation_def handlers_def deleteMember_def)

theorem kick_member_removed_witness:
  "members sampleGroup ''bob'' \<noteq> None \<and>
   applyGroupOperation (\<lambda>g. None) 0 1007 (Some (sampleOp KICK_FROM_GROUP ''bob'')) sampleGroup =
     sampleGroup\<lparr>members := (members sampleGroup)(''bob'' := None)\<rparr>"
proof -
  have h: "members sampleGroup ''bob'' \<noteq> None"
    by (simp add: sampleGroup_def)
  show ?thesis
    using kick_member_removed [of "sampleOp KICK_FROM_GROUP ''bob''" "''bob''" sampleGroup
        "\<lambda>g. None" 0 1007] h
    by (simp add: sampleOp_def)
qed

text \<open>
  A conversation that is not yet in the list is added by \<open>createOrUpdate\<close> once, with its
  \<open>unread\<close> as it came, and the other conversations stay.
\<close>

theorem createOrUpdate_adds_new:
  "findIdx st (chatId chat) = None \<and> chatId chat \<noteq> [] \<longrightarrow>
     (\<exists>c. mset (chatList (createOrUpdate env now (Some chat) fetched (Some m) st)) =
             add_mset c (mset (chatList st)) \<and>
          chatId c = chatId chat \<and> unread c = unread chat)"
  by (auto simp: createOrUpdate_def triggerNotify_def updateWithMsg_def upsert_def findIdx_def
      sortList_def mset_array_sort Let_def split: option.splits)

theorem createOrUpdate_adds_new_witness:
  "findIdx sampleState (chatId chatB) = None \<and> chatId chatB \<noteq> [] \<and>
   (\<exists>c. mset (chatList (createOrUpdate sampleEnv 2000 (Some chatB) None (Some olderMessage)
            sampleState)) = add_mset c (mset (chatList sampleState)) \<and>
        chatId c = chatId chatB \<and> unread c = unread chatB)"
proof -
  have h: "findIdx sampleState (chatId chatB) = None" "chatId chatB \<noteq> []"
    by (simp_all add: findIdx_def sampleState_def sampleChat_def chatB_def)
  show ?thesis
    using createOrUpdate_adds_new [of sampleState chatB sampleEnv 2000 None olderMessage] h
    by simp
qed

end
